theory Spec2Isabelle
  imports Complex_Main "HOL-Library.AList" "HOL-Library.Log_Nat"
begin

section \<open>JavaScript values\<close>

text \<open>
  The three Lambda handlers (\<^verbatim>\<open>createOrder.ts\<close>, \<^verbatim>\<open>updateInstallments.ts\<close> and the
  handler of \<^verbatim>\<open>getOrdersByClient.ts\<close>) move JavaScript values between the request, the
  DynamoDB document marshaller and the response. A value is one of the following.
  Numbers are the integer-valued doubles (\<open>JNum\<close>), the two infinities and \<open>NaN\<close>;
  fractional numbers in a request body are outside this development. \<open>JBigInt\<close> is
  what \<^verbatim>\<open>unmarshall\<close> returns for a stored number beyond the safe integer range. An
  object is the list of its properties, each name once. A string is the list of the
  bytes of its UTF-8 encoding.
\<close>

datatype jsval =
    JUndefined
  | JNull
  | JBool bool
  | JNum int
  | JNaN
  | JInfinity
  | JMinusInfinity
  | JBigInt int
  | JStr string
  | JArr "jsval list"
  | JObj "(string \<times> jsval) list"

text \<open>What a handler's \<^verbatim>\<open>try\<close> block can throw; the string is the message or cause.\<close>

datatype error =
    SyntaxError
  | TypeError
  | Error string
  | ServiceException string string

definition MAX_SAFE_INTEGER :: int where
  "MAX_SAFE_INTEGER = 9007199254740991"

definition isSafeInteger :: "int \<Rightarrow> bool" where
  "isSafeInteger n = (- MAX_SAFE_INTEGER \<le> n \<and> n \<le> MAX_SAFE_INTEGER)"

text \<open>
  Property read \<^verbatim>\<open>v.name\<close>, for the names the handlers read (\<^verbatim>\<open>clientId\<close>,
  \<^verbatim>\<open>items\<close>, \<^verbatim>\<open>paymentMethod\<close>, \<^verbatim>\<open>installments\<close>): a TypeError on \<^verbatim>\<open>null\<close> and
  \<^verbatim>\<open>undefined\<close>, the property of an object, \<^verbatim>\<open>undefined\<close> on anything else.
\<close>

definition getprop :: "jsval \<Rightarrow> string \<Rightarrow> error + jsval" where
  "getprop v name =
     (case v of
        JNull \<Rightarrow> Inl TypeError
      | JUndefined \<Rightarrow> Inl TypeError
      | JObj kvs \<Rightarrow> (case map_of kvs name of None \<Rightarrow> Inr JUndefined | Some x \<Rightarrow> Inr x)
      | _ \<Rightarrow> Inr JUndefined)"

subsection \<open>The request body and \<^verbatim>\<open>JSON.parse\<close>\<close>

text \<open>
  \<^verbatim>\<open>event.body\<close> is \<^verbatim>\<open>null\<close> or a text. The text is represented by what
  \<^verbatim>\<open>JSON.parse\<close> makes of it: the empty text and a text that is not JSON (both a
  SyntaxError), or the document it encodes.
\<close>

datatype body_text = NoBody | EmptyBody | Malformed | Json jsval

text \<open>\<^verbatim>\<open>JSON.parse(event.body!)\<close> of createOrder: \<^verbatim>\<open>null\<close> is read as the text "null".\<close>

definition JSON_parse_body :: "body_text \<Rightarrow> error + jsval" where
  "JSON_parse_body b =
     (case b of
        NoBody \<Rightarrow> Inr JNull
      | EmptyBody \<Rightarrow> Inl SyntaxError
      | Malformed \<Rightarrow> Inl SyntaxError
      | Json v \<Rightarrow> Inr v)"

text \<open>\<^verbatim>\<open>JSON.parse(event.body || '{}')\<close> of updateInstallments.\<close>

definition JSON_parse_body_or_empty :: "body_text \<Rightarrow> error + jsval" where
  "JSON_parse_body_or_empty b =
     (case b of
        NoBody \<Rightarrow> Inr (JObj [])
      | EmptyBody \<Rightarrow> Inr (JObj [])
      | Malformed \<Rightarrow> Inl SyntaxError
      | Json v \<Rightarrow> Inr v)"

subsection \<open>\<^verbatim>\<open>JSON.stringify\<close>\<close>

text \<open>
  A response body is a text; it is represented by the JSON document the text encodes.
  \<^verbatim>\<open>JSON.stringify\<close> leaves out the properties that are \<^verbatim>\<open>undefined\<close>, writes
  \<^verbatim>\<open>null\<close> for \<^verbatim>\<open>NaN\<close>, for the infinities and for \<^verbatim>\<open>undefined\<close> in an array,
  and throws a TypeError on a BigInt.
\<close>

primrec hasBigInt :: "jsval \<Rightarrow> bool" where
  "hasBigInt JUndefined = False"
| "hasBigInt JNull = False"
| "hasBigInt (JBool b) = False"
| "hasBigInt (JNum n) = False"
| "hasBigInt JNaN = False"
| "hasBigInt JInfinity = False"
| "hasBigInt JMinusInfinity = False"
| "hasBigInt (JBigInt n) = True"
| "hasBigInt (JStr s) = False"
| "hasBigInt (JArr xs) = list_ex id (map hasBigInt xs)"
| "hasBigInt (JObj kvs) = list_ex snd (map (map_prod id hasBigInt) kvs)"

primrec serialized :: "jsval \<Rightarrow> jsval" where
  "serialized JUndefined = JNull"
| "serialized JNull = JNull"
| "serialized (JBool b) = JBool b"
| "serialized (JNum n) = JNum n"
| "serialized JNaN = JNull"
| "serialized JInfinity = JNull"
| "serialized JMinusInfinity = JNull"
| "serialized (JBigInt n) = JBigInt n"
| "serialized (JStr s) = JStr s"
| "serialized (JArr xs) = JArr (map serialized xs)"
| "serialized (JObj kvs) =
     JObj (map (map_prod id snd)
       (filter (\<lambda>kv. fst (snd kv) \<noteq> JUndefined)
         (map (map_prod id (\<lambda>v. (v, serialized v))) kvs)))"

definition JSON_stringify :: "jsval \<Rightarrow> error + jsval" where
  "JSON_stringify v = (if hasBigInt v then Inl TypeError else Inr (serialized v))"

subsection \<open>Double arithmetic\<close>

text \<open>
  JavaScript numbers are IEEE 754 doubles. The result of an arithmetic operation is the
  exact result rounded to the nearest double, ties to the even significand:
  \<open>exponent x\<close> is the binary exponent of a positive \<open>x\<close>, \<open>ulp e\<close> the distance
  between neighbouring doubles of exponent \<open>e\<close> (52 fraction bits, subnormal below
  exponent -1022), and \<open>roundToDouble x\<close> the multiple of that distance nearest to
  \<open>x\<close>. A result of magnitude \<open>2 ^ 1024\<close> or more stands for an infinity.
\<close>

definition exponent :: "real \<Rightarrow> int" where
  "exponent x = (if 1 \<le> x then bitlen \<lfloor>x\<rfloor> - 1 else - bitlen (\<lceil>1 / x\<rceil> - 1))"

definition ulp :: "int \<Rightarrow> real" where
  "ulp e = (if 52 \<le> e then 2 ^ nat (e - 52) else 1 / 2 ^ nat (52 - e))"

definition roundHalfEven :: "real \<Rightarrow> int" where
  "roundHalfEven y =
     (let q = \<lfloor>y\<rfloor>; r = y - of_int q
      in if 1 / 2 < r \<or> (r = 1 / 2 \<and> odd q) then q + 1 else q)"

definition roundToDouble :: "real \<Rightarrow> real" where
  "roundToDouble x =
     (if x = 0 then 0
      else let a = \<bar>x\<bar>; u = ulp (max (exponent a) (- 1022))
           in sgn x * (of_int (roundHalfEven (a / u)) * u))"

text \<open>The Number value of a mathematical integer.\<close>

definition toNumber :: "int \<Rightarrow> jsval" where
  "toNumber n =
     (let v = roundToDouble (of_int n)
      in if 2 ^ 1024 \<le> v then JInfinity
         else if v \<le> - (2 ^ 1024) then JMinusInfinity
         else JNum \<lfloor>v\<rfloor>)"

subsection \<open>\<^verbatim>\<open>parseInt\<close>\<close>

text \<open>
  \<^verbatim>\<open>parseInt(s)\<close> with no radix: leading white space is skipped, a sign is read, a
  prefix \<^verbatim>\<open>0x\<close> selects radix 16, and the longest run of digits is the number, as a
  double; no digit at all gives \<^verbatim>\<open>NaN\<close>. What follows the digits is ignored.

  White space is every WhiteSpace and LineTerminator code point of ECMAScript: U+0009 to
  U+000D, U+0020, U+00A0, U+1680, U+2000 to U+200A, U+2028, U+2029, U+202F, U+205F,
  U+3000 and U+FEFF. \<open>whiteSpaceLength s\<close> is the number of bytes of the white space
  character that \<open>s\<close> starts with in UTF-8, and 0 when it starts with none.
\<close>

definition whiteSpaceLength :: "string \<Rightarrow> nat" where
  "whiteSpaceLength s =
     (let b = map of_char (take 3 s) :: nat list
      in if take 1 b \<in> set [[0x09], [0x0A], [0x0B], [0x0C], [0x0D], [0x20]] then 1
         else if take 2 b = [0xC2, 0xA0] then 2
         else if b \<in> set [[0xE1, 0x9A, 0x80],
                           [0xE2, 0x80, 0x80], [0xE2, 0x80, 0x81], [0xE2, 0x80, 0x82],
                           [0xE2, 0x80, 0x83], [0xE2, 0x80, 0x84], [0xE2, 0x80, 0x85],
                           [0xE2, 0x80, 0x86], [0xE2, 0x80, 0x87], [0xE2, 0x80, 0x88],
                           [0xE2, 0x80, 0x89], [0xE2, 0x80, 0x8A],
                           [0xE2, 0x80, 0xA8], [0xE2, 0x80, 0xA9], [0xE2, 0x80, 0xAF],
                           [0xE2, 0x81, 0x9F], [0xE3, 0x80, 0x80], [0xEF, 0xBB, 0xBF]] then 3
         else 0)"

function skipWhiteSpace :: "string \<Rightarrow> string" where
  "skipWhiteSpace s =
     (if whiteSpaceLength s = 0 then s else skipWhiteSpace (drop (whiteSpaceLength s) s))"
  by pat_completeness auto
termination
proof (relation "measure length")
  fix s :: string
  assume n: "whiteSpaceLength s \<noteq> 0"
  have "whiteSpaceLength [] = 0"
    by (simp add: whiteSpaceLength_def)
  with n have "s \<noteq> []"
    by auto
  with n show "(drop (whiteSpaceLength s) s, s) \<in> measure length"
    by simp
qed simp

declare skipWhiteSpace.simps [simp del]

definition digitValue :: "char \<Rightarrow> nat" where
  "digitValue c =
     (let n = (of_char c :: nat) in
      if 48 \<le> n \<and> n \<le> 57 then n - 48
      else if 97 \<le> n \<and> n \<le> 122 then n - 87
      else if 65 \<le> n \<and> n \<le> 90 then n - 55
      else 36)"

definition digitsValue :: "nat \<Rightarrow> string \<Rightarrow> int" where
  "digitsValue radix ds = foldl (\<lambda>acc c. acc * int radix + int (digitValue c)) 0 ds"

definition parseInt :: "string \<Rightarrow> jsval" where
  "parseInt s =
     (let s1 = skipWhiteSpace s;
          negative = (case s1 of c # _ \<Rightarrow> c = CHR ''-'' | [] \<Rightarrow> False);
          s2 = (case s1 of c # r \<Rightarrow> if c = CHR ''-'' \<or> c = CHR ''+'' then r else s1 | [] \<Rightarrow> s1);
          hex = (take 2 s2 = ''0x'' \<or> take 2 s2 = ''0X'');
          radix = (if hex then 16 else 10);
          s3 = (if hex then drop 2 s2 else s2);
          ds = takeWhile (\<lambda>c. digitValue c < radix) s3
      in if ds = [] then JNaN
         else toNumber (if negative then - digitsValue radix ds else digitsValue radix ds))"

section \<open>The DynamoDB document marshaller\<close>

text \<open>
  \<^verbatim>\<open>marshall\<close> and \<^verbatim>\<open>unmarshall\<close> of \<^verbatim>\<open>@aws-sdk/util-dynamodb\<close>, with the default
  options the handlers use. \<^verbatim>\<open>marshall\<close> throws on \<^verbatim>\<open>undefined\<close> (at any depth), on
  \<^verbatim>\<open>NaN\<close>, on the infinities and on a number outside the safe integer range.
\<close>

datatype attr =
    AttrN int
  | AttrS string
  | AttrBOOL bool
  | AttrNULL
  | AttrL "attr list"
  | AttrM "(string \<times> attr) list"

type_synonym item = "(string \<times> attr) list"

primrec notMarshallable :: "jsval \<Rightarrow> bool" where
  "notMarshallable JUndefined = True"
| "notMarshallable JNull = False"
| "notMarshallable (JBool b) = False"
| "notMarshallable (JNum n) = (\<not> isSafeInteger n)"
| "notMarshallable JNaN = True"
| "notMarshallable JInfinity = True"
| "notMarshallable JMinusInfinity = True"
| "notMarshallable (JBigInt n) = False"
| "notMarshallable (JStr s) = False"
| "notMarshallable (JArr xs) = list_ex id (map notMarshallable xs)"
| "notMarshallable (JObj kvs) = list_ex snd (map (map_prod id notMarshallable) kvs)"

primrec convertToAttr :: "jsval \<Rightarrow> attr" where
  "convertToAttr JUndefined = AttrNULL"
| "convertToAttr JNull = AttrNULL"
| "convertToAttr (JBool b) = AttrBOOL b"
| "convertToAttr (JNum n) = AttrN n"
| "convertToAttr JNaN = AttrNULL"
| "convertToAttr JInfinity = AttrNULL"
| "convertToAttr JMinusInfinity = AttrNULL"
| "convertToAttr (JBigInt n) = AttrN n"
| "convertToAttr (JStr s) = AttrS s"
| "convertToAttr (JArr xs) = AttrL (map convertToAttr xs)"
| "convertToAttr (JObj kvs) = AttrM (map (map_prod id convertToAttr) kvs)"

text \<open>\<^verbatim>\<open>marshall\<close> of an object literal: the attribute map of its properties.\<close>

definition marshall :: "(string \<times> jsval) list \<Rightarrow> error + item" where
  "marshall kvs =
     (if notMarshallable (JObj kvs) then Inl (Error ''marshall'')
      else Inr (map (map_prod id convertToAttr) kvs))"

primrec convertToNative :: "attr \<Rightarrow> jsval" where
  "convertToNative (AttrN n) = (if isSafeInteger n then JNum n else JBigInt n)"
| "convertToNative (AttrS s) = JStr s"
| "convertToNative (AttrBOOL b) = JBool b"
| "convertToNative AttrNULL = JNull"
| "convertToNative (AttrL xs) = JArr (map convertToNative xs)"
| "convertToNative (AttrM kvs) = JObj (map (map_prod id convertToNative) kvs)"

definition unmarshall :: "item \<Rightarrow> jsval" where
  "unmarshall it = JObj (map (map_prod id convertToNative) it)"

section \<open>The table and the DynamoDB commands\<close>

text \<open>
  The stack declares one table, with a numeric partition key and a numeric sort key.
  DynamoDB itself is not code of this repository: the commands below follow its
  documented behaviour for the three commands the handlers send, on the expressions
  the handlers write. The expression texts are kept in their parsed form:
  \<^verbatim>\<open>'SET Installments = :installments, UpdatedAt = :updatedAt'\<close> is the list of its two
  assignments, \<^verbatim>\<open>'ClientId = :clientId'\<close> the equality of an attribute and a placeholder.
  A query returns every matching item: the 1 MB page limit is not part of the model.
\<close>

datatype AttributeType = NUMBER | STRING | BINARY

record KeyAttribute =
  keyName :: string
  keyType :: AttributeType

record TableProps =
  tableName :: string
  partitionKey :: KeyAttribute
  sortKey :: KeyAttribute

text \<open>The declaration of \<^verbatim>\<open>lib/aws-apigateway-lambda-cdk-stack.ts\<close>, lines 14 to 25.\<close>

definition stack_table :: TableProps where
  "stack_table =
     \<lparr>tableName = ''apigateway-lambda-db'',
      partitionKey = \<lparr>keyName = ''ClientId'', keyType = NUMBER\<rparr>,
      sortKey = \<lparr>keyName = ''OrderId'', keyType = NUMBER\<rparr>\<rparr>"

text \<open>
  The declaration of the second stack source (\<^verbatim>\<open>unnamed/part_000\<close>, lines 14 to 25),
  which spells the partition key \<^verbatim>\<open>ClientID\<close>.
\<close>

definition part_000_table :: TableProps where
  "part_000_table =
     \<lparr>tableName = ''apigateway-lambda-db'',
      partitionKey = \<lparr>keyName = ''ClientID'', keyType = NUMBER\<rparr>,
      sortKey = \<lparr>keyName = ''OrderId'', keyType = NUMBER\<rparr>\<rparr>"

record table =
  props :: TableProps
  items :: "item list"

definition hasType :: "AttributeType \<Rightarrow> attr option \<Rightarrow> bool" where
  "hasType ty a =
     (case a of
        Some (AttrN n) \<Rightarrow> ty = NUMBER
      | Some (AttrS s) \<Rightarrow> ty = STRING
      | _ \<Rightarrow> False)"

text \<open>The primary key of an item: the values of its two key attributes.\<close>

definition primaryKey :: "TableProps \<Rightarrow> item \<Rightarrow> attr option \<times> attr option" where
  "primaryKey p it = (map_of it (keyName (partitionKey p)), map_of it (keyName (sortKey p)))"

text \<open>An item can be stored when it carries both key attributes, of the declared types.\<close>

definition hasKey :: "TableProps \<Rightarrow> item \<Rightarrow> bool" where
  "hasKey p it =
     (hasType (keyType (partitionKey p)) (map_of it (keyName (partitionKey p))) \<and>
      hasType (keyType (sortKey p)) (map_of it (keyName (sortKey p))))"

text \<open>A \<^verbatim>\<open>Key\<close> parameter matches the schema when it is exactly the two key attributes.\<close>

definition keyMatchesSchema :: "TableProps \<Rightarrow> item \<Rightarrow> bool" where
  "keyMatchesSchema p k = (length k = 2 \<and> hasKey p k)"

datatype condition = Equals string string

datatype command =
    PutItemCommand item
  | UpdateItemCommand item "(string \<times> string) list" item
  | QueryCommand condition "condition option" item

datatype commandOutput =
    PutItemOutput
  | UpdateItemOutput item
  | QueryOutput "item list"

definition ValidationException :: "string \<Rightarrow> error" where
  "ValidationException msg = ServiceException ''ValidationException'' msg"

text \<open>\<^verbatim>\<open>PutItem\<close>: an unconditional write; an item with the same primary key is replaced.\<close>

definition putItem :: "item \<Rightarrow> table \<Rightarrow> error + commandOutput \<times> table" where
  "putItem it t =
     (if \<not> hasKey (props t) it
      then Inl (ValidationException ''Missing the key in the item'')
      else Inr (PutItemOutput,
             t\<lparr>items := it # filter (\<lambda>old. primaryKey (props t) old \<noteq> primaryKey (props t) it) (items t)\<rparr>))"

text \<open>The values of the placeholders of a \<^verbatim>\<open>SET\<close> clause; \<open>None\<close> when one is not given.\<close>

fun resolve :: "item \<Rightarrow> (string \<times> string) list \<Rightarrow> item option" where
  "resolve vals [] = Some []"
| "resolve vals ((a, ph) # rest) =
     (case map_of vals ph of
        None \<Rightarrow> None
      | Some v \<Rightarrow> (case resolve vals rest of None \<Rightarrow> None | Some r \<Rightarrow> Some ((a, v) # r)))"

definition applySet :: "item \<Rightarrow> item \<Rightarrow> item" where
  "applySet assignments it = foldl (\<lambda>acc av. AList.update (fst av) (snd av) acc) it assignments"

text \<open>
  \<^verbatim>\<open>UpdateItem\<close> with no \<^verbatim>\<open>ConditionExpression\<close>, \<^verbatim>\<open>ReturnValues: 'ALL_NEW'\<close>: the
  key is checked against the schema; the assignments are made on the item with that
  key, and on a new item holding the key alone when the table has none.
\<close>

definition updateItem :: "item \<Rightarrow> (string \<times> string) list \<Rightarrow> item \<Rightarrow> table \<Rightarrow> error + commandOutput \<times> table" where
  "updateItem k sets vals t =
     (if \<not> keyMatchesSchema (props t) k
      then Inl (ValidationException ''The provided key element does not match the schema'')
      else case resolve vals sets of
        None \<Rightarrow> Inl (ValidationException ''An expression attribute value used in expression is not defined'')
      | Some assignments \<Rightarrow>
          (case find (\<lambda>old. primaryKey (props t) old = primaryKey (props t) k) (items t) of
             None \<Rightarrow>
               Inr (UpdateItemOutput (applySet assignments k),
                    t\<lparr>items := applySet assignments k # items t\<rparr>)
           | Some old \<Rightarrow>
               Inr (UpdateItemOutput (applySet assignments old),
                    t\<lparr>items := map (\<lambda>i. if primaryKey (props t) i = primaryKey (props t) k
                                          then applySet assignments i else i) (items t)\<rparr>)))"

definition sortKeyNumber :: "TableProps \<Rightarrow> item \<Rightarrow> int" where
  "sortKeyNumber p it = (case map_of it (keyName (sortKey p)) of Some (AttrN n) \<Rightarrow> n | _ \<Rightarrow> 0)"

text \<open>
  \<^verbatim>\<open>Query\<close>: the key condition must be an equality on the partition key; the items of
  that partition come in ascending sort key order; the filter is applied to them
  afterwards and may only name attributes outside the key.
\<close>

definition query :: "condition \<Rightarrow> condition option \<Rightarrow> item \<Rightarrow> table \<Rightarrow> error + commandOutput \<times> table" where
  "query keyCondition filterExpression vals t =
     (case keyCondition of Equals a ph \<Rightarrow>
        if a \<noteq> keyName (partitionKey (props t))
        then Inl (ValidationException ''Query condition missed key schema element'')
        else if \<not> hasType (keyType (partitionKey (props t))) (map_of vals ph)
        then Inl (ValidationException ''Condition parameter type does not match schema type'')
        else
          (let partition = sort_key (sortKeyNumber (props t))
                 (filter (\<lambda>i. map_of i a = map_of vals ph) (items t))
           in case filterExpression of
                None \<Rightarrow> Inr (QueryOutput partition, t)
              | Some (Equals b ph') \<Rightarrow>
                  if b = keyName (partitionKey (props t)) \<or> b = keyName (sortKey (props t))
                  then Inl (ValidationException ''Filter Expression can only contain non-primary key attributes'')
                  else (case map_of vals ph' of
                          None \<Rightarrow> Inl (ValidationException ''An expression attribute value used in expression is not defined'')
                        | Some v \<Rightarrow> Inr (QueryOutput (filter (\<lambda>i. map_of i b = Some v) partition), t))))"

primrec dynamodb :: "command \<Rightarrow> table \<Rightarrow> error + commandOutput \<times> table" where
  "dynamodb (PutItemCommand it) t = putItem it t"
| "dynamodb (UpdateItemCommand k sets vals) t = updateItem k sets vals t"
| "dynamodb (QueryCommand kc fe vals) t = query kc fe vals t"

section \<open>The environment of a request\<close>

text \<open>
  What a handler reads from outside: the clock (\<^verbatim>\<open>Date.now()\<close>, in milliseconds, and
  \<^verbatim>\<open>new Date().toISOString()\<close>), \<^verbatim>\<open>Math.random()\<close> (the value of the double it
  returns, at least 0 and at most \<open>1 - 1 / 2 ^ 53\<close>), and whether the store call of
  this request fails for a cause of the store's own (connectivity, throttling,
  permission).
\<close>

record env =
  Date_now :: int
  Math_random :: real
  toISOString :: string
  storeFault :: "string option"

text \<open>The table, and the commands sent to the client so far.\<close>

record world =
  tbl :: table
  sent :: "command list"

text \<open>\<^verbatim>\<open>client.send(command)\<close>: one call of the store, which answers or throws.\<close>

definition send :: "env \<Rightarrow> command \<Rightarrow> world \<Rightarrow> (error + commandOutput) \<times> world" where
  "send e cmd w =
     (let w1 = w\<lparr>sent := sent w @ [cmd]\<rparr>
      in case storeFault e of
           Some cause \<Rightarrow> (Inl (ServiceException ''ServiceFault'' cause), w1)
         | None \<Rightarrow>
             (case dynamodb cmd (tbl w) of
                Inl err \<Rightarrow> (Inl err, w1)
              | Inr (out, t') \<Rightarrow> (Inr out, w1\<lparr>tbl := t'\<rparr>)))"

section \<open>Requests and responses\<close>

record APIGatewayEvent =
  pathParameters :: "(string \<times> string) list option"
  queryStringParameters :: "(string \<times> string) list option"
  body :: body_text

record APIGatewayProxyResult =
  statusCode :: nat
  headers :: "(string \<times> string) list"
  resultBody :: jsval

text \<open>\<^verbatim>\<open>event.pathParameters?.name\<close>: \<open>None\<close> is \<^verbatim>\<open>undefined\<close>.\<close>

definition pathParameter :: "APIGatewayEvent \<Rightarrow> string \<Rightarrow> string option" where
  "pathParameter event name =
     (case pathParameters event of None \<Rightarrow> None | Some ps \<Rightarrow> map_of ps name)"

definition queryStringParameter :: "APIGatewayEvent \<Rightarrow> string \<Rightarrow> string option" where
  "queryStringParameter event name =
     (case queryStringParameters event of None \<Rightarrow> None | Some ps \<Rightarrow> map_of ps name)"

text \<open>\<^verbatim>\<open>!s\<close> for a string that may be \<^verbatim>\<open>undefined\<close>: true on \<^verbatim>\<open>undefined\<close> and on the empty string.\<close>

definition falsy :: "string option \<Rightarrow> bool" where
  "falsy s = (case s of None \<Rightarrow> True | Some x \<Rightarrow> x = [])"

definition jsonHeaders :: "(string \<times> string) list" where
  "jsonHeaders = [(''Content-Type'', ''application/json'')]"

definition failure :: "nat \<Rightarrow> string \<Rightarrow> APIGatewayProxyResult" where
  "failure code msg =
     \<lparr>statusCode = code, headers = jsonHeaders,
      resultBody = JObj [(''success'', JBool False), (''error'', JStr msg)]\<rparr>"

text \<open>The response of every \<^verbatim>\<open>catch\<close> block: status 500, "Erro interno do servidor".\<close>

definition internalServerError :: APIGatewayProxyResult where
  "internalServerError = failure 500 ''Erro interno do servidor''"

text \<open>What the \<^verbatim>\<open>try\<close>/\<^verbatim>\<open>catch\<close> of a handler makes of its body's outcome.\<close>

definition catch :: "(error + APIGatewayProxyResult) \<times> world \<Rightarrow> APIGatewayProxyResult \<times> world" where
  "catch r = (case fst r of Inl err \<Rightarrow> (internalServerError, snd r) | Inr res \<Rightarrow> (res, snd r))"

section \<open>createOrder.ts\<close>

text \<open>
  \<^verbatim>\<open>Date.now() * 1000 + Math.floor(Math.random() * 1000)\<close>: the two products and the
  sum are double operations; \<^verbatim>\<open>Math.floor\<close> of a double is exact.
\<close>

definition generateOrderId :: "env \<Rightarrow> int" where
  "generateOrderId e =
     \<lfloor>roundToDouble
        (roundToDouble (of_int (Date_now e) * 1000) +
         of_int \<lfloor>roundToDouble (Math_random e * 1000)\<rfloor>)\<rfloor>"

definition createOrder_try :: "env \<Rightarrow> APIGatewayEvent \<Rightarrow> world \<Rightarrow> (error + APIGatewayProxyResult) \<times> world" where
  "createOrder_try e event w =
     (case JSON_parse_body (body event) of
        Inl err \<Rightarrow> (Inl err, w)
      | Inr order \<Rightarrow>
     (let orderId = generateOrderId e in
      case getprop order ''clientId'' of
        Inl err \<Rightarrow> (Inl err, w)
      | Inr clientId \<Rightarrow>
     (case getprop order ''items'' of
        Inl err \<Rightarrow> (Inl err, w)
      | Inr orderItems \<Rightarrow>
     (case getprop order ''paymentMethod'' of
        Inl err \<Rightarrow> (Inl err, w)
      | Inr paymentMethod \<Rightarrow>
     (case getprop order ''installments'' of
        Inl err \<Rightarrow> (Inl err, w)
      | Inr installments \<Rightarrow>
     (case marshall
             [(''ClientId'', clientId),
              (''OrderId'', JNum orderId),
              (''Items'', orderItems),
              (''PaymentMethod'', paymentMethod),
              (''Installments'', installments),
              (''CreatedAt'', JStr (toISOString e))] of
        Inl err \<Rightarrow> (Inl err, w)
      | Inr marshalledItem \<Rightarrow>
     (case send e (PutItemCommand marshalledItem) w of (sendResult, w') \<Rightarrow>
       (case sendResult of
          Inl err \<Rightarrow> Inl err
        | Inr out \<Rightarrow>
       (case JSON_stringify
               (JObj [(''success'', JBool True),
                      (''orderId'', JNum orderId),
                      (''clientId'', clientId)]) of
          Inl err \<Rightarrow> Inl err
        | Inr text \<Rightarrow>
            Inr \<lparr>statusCode = 201, headers = jsonHeaders, resultBody = text\<rparr>),
        w'))))))))"

definition createOrder_handler :: "env \<Rightarrow> APIGatewayEvent \<Rightarrow> world \<Rightarrow> APIGatewayProxyResult \<times> world" where
  "createOrder_handler e event w = catch (createOrder_try e event w)"

section \<open>updateInstallments.ts\<close>

text \<open>The message of the 400 response (line 33), its accented letters in UTF-8.\<close>

definition msgPathRequired :: string where
  "msgPathRequired =
     ''clientId e orderId s'' @ [CHR 0xC3, CHR 0xA3] @ ''o obrigat'' @ [CHR 0xC3, CHR 0xB3] @ ''rios no path''"

definition updateInstallments_try :: "env \<Rightarrow> APIGatewayEvent \<Rightarrow> world \<Rightarrow> (error + APIGatewayProxyResult) \<times> world" where
  "updateInstallments_try e event w =
     (let clientId = pathParameter event ''clientId'';
          orderId = pathParameter event ''orderId''
      in if falsy clientId \<or> falsy orderId then (Inr (failure 400 msgPathRequired), w)
      else
     (case JSON_parse_body_or_empty (body event) of
        Inl err \<Rightarrow> (Inl err, w)
      | Inr payload \<Rightarrow>
     (case getprop payload ''installments'' of
        Inl err \<Rightarrow> (Inl err, w)
      | Inr installments \<Rightarrow>
     (case marshall
             [(''ClientID'', parseInt (case clientId of Some c \<Rightarrow> c | None \<Rightarrow> [])),
              (''OrderId'', parseInt (case orderId of Some c \<Rightarrow> c | None \<Rightarrow> []))] of
        Inl err \<Rightarrow> (Inl err, w)
      | Inr key \<Rightarrow>
     (case marshall
             [('':installments'', installments),
              ('':updatedAt'', JStr (toISOString e))] of
        Inl err \<Rightarrow> (Inl err, w)
      | Inr expressionAttributeValues \<Rightarrow>
     (case send e
             (UpdateItemCommand key
                [(''Installments'', '':installments''), (''UpdatedAt'', '':updatedAt'')]
                expressionAttributeValues) w of (sendResult, w') \<Rightarrow>
       (case sendResult of
          Inl err \<Rightarrow> Inl err
        | Inr out \<Rightarrow>
       (case JSON_stringify
               (JObj [(''success'', JBool True),
                      (''clientId'', parseInt (case clientId of Some c \<Rightarrow> c | None \<Rightarrow> [])),
                      (''orderId'', parseInt (case orderId of Some c \<Rightarrow> c | None \<Rightarrow> [])),
                      (''installments'', installments)]) of
          Inl err \<Rightarrow> Inl err
        | Inr text \<Rightarrow>
            Inr \<lparr>statusCode = 200, headers = jsonHeaders, resultBody = text\<rparr>),
        w')))))))"

definition updateInstallments_handler :: "env \<Rightarrow> APIGatewayEvent \<Rightarrow> world \<Rightarrow> APIGatewayProxyResult \<times> world" where
  "updateInstallments_handler e event w = catch (updateInstallments_try e event w)"

section \<open>getOrdersByClient.ts\<close>

definition VALID_PAYMENT_METHODS :: "string list" where
  "VALID_PAYMENT_METHODS = [''credit_card'', ''debit_card'', ''pix'']"

fun join :: "string \<Rightarrow> string list \<Rightarrow> string" where
  "join sep [] = []"
| "join sep [x] = x"
| "join sep (x # y # ys) = x @ sep @ join sep (y # ys)"

text \<open>The three messages of the 400 responses, in UTF-8.\<close>

definition msgClientIdRequired :: string where
  "msgClientIdRequired =
     ''clientId '' @ [CHR 0xC3, CHR 0xA9] @ '' obrigat'' @ [CHR 0xC3, CHR 0xB3] @ ''rio no path''"

definition msgClientIdNumber :: string where
  "msgClientIdNumber =
     ''clientId deve ser um n'' @ [CHR 0xC3, CHR 0xBA] @ ''mero v'' @ [CHR 0xC3, CHR 0xA1] @ ''lido''"

definition msgInvalidPaymentMethod :: string where
  "msgInvalidPaymentMethod =
     ''paymentMethod inv'' @ [CHR 0xC3, CHR 0xA1] @ ''lido. Valores aceitos: ''
       @ join '', '' VALID_PAYMENT_METHODS"

definition getOrdersByClient_try :: "env \<Rightarrow> APIGatewayEvent \<Rightarrow> world \<Rightarrow> (error + APIGatewayProxyResult) \<times> world" where
  "getOrdersByClient_try e event w =
     (let clientId = pathParameter event ''clientId''
      in if falsy clientId then (Inr (failure 400 msgClientIdRequired), w)
      else
     (let clientIdNumber = parseInt (case clientId of Some c \<Rightarrow> c | None \<Rightarrow> [])
      in if clientIdNumber = JNaN then (Inr (failure 400 msgClientIdNumber), w)
      else
     (let paymentMethod = queryStringParameter event ''paymentMethod''
      in if \<not> falsy paymentMethod \<and>
            (case paymentMethod of Some p \<Rightarrow> p | None \<Rightarrow> []) \<notin> set VALID_PAYMENT_METHODS
         then (Inr (failure 400 msgInvalidPaymentMethod), w)
      else
     (case marshall
             (('':clientId'', clientIdNumber) #
              (case paymentMethod of
                 Some p \<Rightarrow> if p = [] then [] else [('':paymentMethod'', JStr p)]
               | None \<Rightarrow> [])) of
        Inl err \<Rightarrow> (Inl err, w)
      | Inr expressionAttributeValues \<Rightarrow>
     (case send e
             (QueryCommand (Equals ''ClientId'' '':clientId'')
                (if falsy paymentMethod then None
                 else Some (Equals ''PaymentMethod'' '':paymentMethod''))
                expressionAttributeValues) w of (sendResult, w') \<Rightarrow>
       (case sendResult of
          Inl err \<Rightarrow> Inl err
        | Inr out \<Rightarrow>
       (let orders = (case out of QueryOutput its \<Rightarrow> map unmarshall its | _ \<Rightarrow> [])
        in case JSON_stringify
               (JObj ([(''success'', JBool True),
                       (''clientId'', clientIdNumber)]
                      @ (case paymentMethod of
                           Some p \<Rightarrow> if p = [] then [] else [(''paymentMethod'', JStr p)]
                         | None \<Rightarrow> [])
                      @ [(''count'', JNum (int (length orders))),
                         (''orders'', JArr orders)])) of
          Inl err \<Rightarrow> Inl err
        | Inr text \<Rightarrow>
            Inr \<lparr>statusCode = 200, headers = jsonHeaders, resultBody = text\<rparr>),
        w'))))))"

definition getOrdersByClient_handler :: "env \<Rightarrow> APIGatewayEvent \<Rightarrow> world \<Rightarrow> APIGatewayProxyResult \<times> world" where
  "getOrdersByClient_handler e event w = catch (getOrdersByClient_try e event w)"

section \<open>Scenarios\<close>

text \<open>
  The concrete requests of the specification's scenarios: a clock reading, an empty
  table of a given declaration, and the three kinds of event.
\<close>

definition scenarioEnv :: env where
  "scenarioEnv =
     \<lparr>Date_now = 1700000000000, Math_random = 1 / 2,
      toISOString = ''2023-11-14T22:13:20.000Z'', storeFault = None\<rparr>"

definition emptyWorld :: "TableProps \<Rightarrow> world" where
  "emptyWorld p = \<lparr>tbl = \<lparr>props = p, items = []\<rparr>, sent = []\<rparr>"

definition createOrderEvent :: "jsval \<Rightarrow> APIGatewayEvent" where
  "createOrderEvent payload =
     \<lparr>pathParameters = None, queryStringParameters = None, body = Json payload\<rparr>"

definition pixOrder :: jsval where
  "pixOrder =
     JObj [(''clientId'', JNum 1),
           (''items'', JArr [JObj [(''productId'', JNum 10), (''quantity'', JNum 2)]]),
           (''paymentMethod'', JStr ''pix''),
           (''installments'', JNum 3)]"

definition cardOrder :: jsval where
  "cardOrder =
     JObj [(''clientId'', JNum 1),
           (''items'', JArr [JObj [(''productId'', JNum 77), (''quantity'', JNum 1)]]),
           (''paymentMethod'', JStr ''credit_card''),
           (''installments'', JNum 1)]"

definition updateInstallmentsEvent :: "string \<Rightarrow> string \<Rightarrow> jsval \<Rightarrow> APIGatewayEvent" where
  "updateInstallmentsEvent clientId orderId payload =
     \<lparr>pathParameters = Some [(''clientId'', clientId), (''orderId'', orderId)],
      queryStringParameters = None, body = Json payload\<rparr>"

definition listOrdersEvent :: "string \<Rightarrow> string option \<Rightarrow> APIGatewayEvent" where
  "listOrdersEvent clientId paymentMethod =
     \<lparr>pathParameters = Some [(''clientId'', clientId)],
      queryStringParameters =
        (case paymentMethod of None \<Rightarrow> None | Some p \<Rightarrow> Some [(''paymentMethod'', p)]),
      body = NoBody\<rparr>"

text \<open>The attribute names by which a command addresses the table's key.\<close>

primrec keyAttributeNames :: "command \<Rightarrow> string list" where
  "keyAttributeNames (PutItemCommand it) = map fst it"
| "keyAttributeNames (UpdateItemCommand k sets vals) = map fst k"
| "keyAttributeNames (QueryCommand kc fe vals) = (case kc of Equals a ph \<Rightarrow> [a])"

definition namesPartitionKey :: "TableProps \<Rightarrow> command \<Rightarrow> bool" where
  "namesPartitionKey p cmd = (keyName (partitionKey p) \<in> set (keyAttributeNames cmd))"

text \<open>What the first scenario stores, and the worlds it passes through.\<close>

definition pixItem :: item where
  "pixItem =
     [(''ClientId'', AttrN 1), (''OrderId'', AttrN 1700000000000500),
      (''Items'', AttrL [AttrM [(''productId'', AttrN 10), (''quantity'', AttrN 2)]]),
      (''PaymentMethod'', AttrS ''pix''), (''Installments'', AttrN 3),
      (''CreatedAt'', AttrS ''2023-11-14T22:13:20.000Z'')]"

definition pixOrderListed :: jsval where
  "pixOrderListed =
     JObj [(''ClientId'', JNum 1), (''OrderId'', JNum 1700000000000500),
           (''Items'', JArr [JObj [(''productId'', JNum 10), (''quantity'', JNum 2)]]),
           (''PaymentMethod'', JStr ''pix''), (''Installments'', JNum 3),
           (''CreatedAt'', JStr ''2023-11-14T22:13:20.000Z'')]"

definition worldAfterCreate :: world where
  "worldAfterCreate =
     \<lparr>tbl = \<lparr>props = stack_table, items = [pixItem]\<rparr>, sent = [PutItemCommand pixItem]\<rparr>"

definition updateTo6 :: APIGatewayEvent where
  "updateTo6 =
     updateInstallmentsEvent ''1'' ''1700000000000500'' (JObj [(''installments'', JNum 6)])"

definition worldAfterUpdate :: world where
  "worldAfterUpdate =
     worldAfterCreate\<lparr>sent :=
       [PutItemCommand pixItem,
        UpdateItemCommand [(''ClientID'', AttrN 1), (''OrderId'', AttrN 1700000000000500)]
          [(''Installments'', '':installments''), (''UpdatedAt'', '':updatedAt'')]
          [('':installments'', AttrN 6), ('':updatedAt'', AttrS ''2023-11-14T22:13:20.000Z'')]]\<rparr>"

text \<open>
  A second request in the same millisecond whose random draw (0.5004) falls in the same
  thousandth as the first one's, and the item it stores.
\<close>

definition collidingEnv :: env where
  "collidingEnv = scenarioEnv\<lparr>Math_random := 5004 / 10000\<rparr>"

definition cardItem :: item where
  "cardItem =
     [(''ClientId'', AttrN 1), (''OrderId'', AttrN 1700000000000500),
      (''Items'', AttrL [AttrM [(''productId'', AttrN 77), (''quantity'', AttrN 1)]]),
      (''PaymentMethod'', AttrS ''credit_card''), (''Installments'', AttrN 1),
      (''CreatedAt'', AttrS ''2023-11-14T22:13:20.000Z'')]"

text \<open>The item createOrder stores for \<open>pixOrder\<close> under any clock.\<close>

definition storedPixOrder :: "env \<Rightarrow> item" where
  "storedPixOrder e =
     [(''ClientId'', AttrN 1), (''OrderId'', AttrN (generateOrderId e)),
      (''Items'', AttrL [AttrM [(''productId'', AttrN 10), (''quantity'', AttrN 2)]]),
      (''PaymentMethod'', AttrS ''pix''), (''Installments'', AttrN 3),
      (''CreatedAt'', AttrS (toISOString e))]"

text \<open>An update of an order that no one created, and a store that is out of service.\<close>

definition absentKeyUpdate :: APIGatewayEvent where
  "absentKeyUpdate = updateInstallmentsEvent ''1'' ''5'' (JObj [(''installments'', JNum 6)])"

definition faultyEnv :: env where
  "faultyEnv = scenarioEnv\<lparr>storeFault := Some ''ProvisionedThroughputExceededException''\<rparr>"

text \<open>The attributes of an item other than the two that updateInstallments sets.\<close>

definition otherAttributes :: "item \<Rightarrow> item" where
  "otherAttributes it = filter (\<lambda>kv. fst kv \<noteq> ''Installments'' \<and> fst kv \<noteq> ''UpdatedAt'') it"

section \<open>Doubles\<close>

lemma ulp_pos: "0 < ulp e"
  by (simp add: ulp_def)

lemma ulp_mono: "e \<le> e' \<Longrightarrow> ulp e \<le> ulp e'"
proof -
  have p: "ulp e = 2 powr (real_of_int e - 52)" for e
    by (auto simp: ulp_def powr_realpow[symmetric] powr_minus divide_simps nat_diff_distrib'
        simp flip: powr_add)
  show "e \<le> e' \<Longrightarrow> ulp e \<le> ulp e'"
    by (simp add: p)
qed

lemma roundHalfEven_of_int: "roundHalfEven (of_int q) = q"
  by (simp add: roundHalfEven_def)

lemma roundHalfEven_upper: "real_of_int (roundHalfEven y) \<le> y + 1 / 2"
  by (simp add: roundHalfEven_def Let_def) linarith

lemma roundHalfEven_nonneg: "0 \<le> y \<Longrightarrow> 0 \<le> roundHalfEven y"
  by (simp add: roundHalfEven_def Let_def)

lemma roundToDouble_multiple:
  assumes "0 < a" and "a / ulp (max (exponent a) (- 1022)) = of_int q"
  shows "roundToDouble a = a"
proof -
  have u: "ulp (max (exponent a) (- 1022)) \<noteq> 0"
    using ulp_pos[of "max (exponent a) (- 1022)"] by simp
  have "roundToDouble a = of_int q * ulp (max (exponent a) (- 1022))"
    using assms(1) by (simp add: roundToDouble_def Let_def assms(2) roundHalfEven_of_int)
  also have "\<dots> = a"
    using assms(2) u by (simp add: field_simps)
  finally show ?thesis .
qed

lemma bitlen_safe:
  assumes "0 < a" and "a < 2 ^ 53"
  shows "1 \<le> bitlen a" and "bitlen a \<le> 53"
proof -
  show "1 \<le> bitlen a"
    using assms(1) by (simp add: bitlen_alt_def)
  show "bitlen a \<le> 53"
  proof (rule ccontr)
    assume "\<not> bitlen a \<le> 53"
    then have "53 \<le> nat (bitlen a - 1)"
      by simp
    then have "(2::int) ^ 53 \<le> 2 ^ nat (bitlen a - 1)"
      by (intro power_increasing) simp_all
    also have "\<dots> \<le> a"
      using bitlen_bounds[OF assms(1)] by simp
    finally show False
      using assms(2) by simp
  qed
qed

lemma roundToDouble_pos_int:
  assumes "0 < a" and "a < 2 ^ 53"
  shows "roundToDouble (of_int a) = of_int a"
proof -
  have e: "exponent (of_int a) = bitlen a - 1"
    using assms(1) by (simp add: exponent_def)
  have b: "0 \<le> bitlen a - 1" "bitlen a - 1 \<le> 52"
    using bitlen_safe[OF assms] by simp_all
  have u: "ulp (max (exponent (of_int a)) (- 1022)) = 1 / 2 ^ nat (52 - (bitlen a - 1))"
    using b by (auto simp: e ulp_def max_def)
  have "real_of_int a / ulp (max (exponent (of_int a)) (- 1022)) =
          of_int (a * 2 ^ nat (52 - (bitlen a - 1)))"
    by (simp add: u)
  then show ?thesis
    using assms(1)
    by (intro roundToDouble_multiple[where q = "a * 2 ^ nat (52 - (bitlen a - 1))"]) simp_all
qed

lemma roundToDouble_neg: "roundToDouble (- x) = - roundToDouble x"
  by (simp add: roundToDouble_def Let_def sgn_minus)

text \<open>Every safe integer is a double, and the rounding leaves it as it is.\<close>

lemma roundToDouble_safe:
  assumes "isSafeInteger n"
  shows "roundToDouble (of_int n) = of_int n"
proof -
  consider "n = 0" | "0 < n" | "n < 0"
    by linarith
  then show ?thesis
  proof cases
    case 1
    then show ?thesis
      by (simp add: roundToDouble_def)
  next
    case 2
    then show ?thesis
      using assms
      by (intro roundToDouble_pos_int) (simp_all add: isSafeInteger_def MAX_SAFE_INTEGER_def)
  next
    case 3
    then have "roundToDouble (of_int (- n)) = of_int (- n)"
      using assms
      by (intro roundToDouble_pos_int) (simp_all add: isSafeInteger_def MAX_SAFE_INTEGER_def)
    then show ?thesis
      using roundToDouble_neg[of "of_int n"] by simp
  qed
qed

lemma toNumber_safe: "isSafeInteger n \<Longrightarrow> toNumber n = JNum n"
  by (simp add: toNumber_def roundToDouble_safe Let_def isSafeInteger_def MAX_SAFE_INTEGER_def)

lemma exponent_le:
  assumes "0 < x" and "x < 2 ^ k" and "0 < k"
  shows "exponent x \<le> int k - 1"
proof (cases "1 \<le> x")
  case True
  then have p: "0 < \<lfloor>x\<rfloor>"
    by simp
  have lt: "\<lfloor>x\<rfloor> < 2 ^ k"
    using assms(2) by (simp add: floor_less_iff)
  have "bitlen \<lfloor>x\<rfloor> \<le> int k"
  proof (rule ccontr)
    assume "\<not> bitlen \<lfloor>x\<rfloor> \<le> int k"
    then have "k \<le> nat (bitlen \<lfloor>x\<rfloor> - 1)"
      by simp
    then have "(2::int) ^ k \<le> 2 ^ nat (bitlen \<lfloor>x\<rfloor> - 1)"
      by (intro power_increasing) simp_all
    also have "\<dots> \<le> \<lfloor>x\<rfloor>"
      using bitlen_bounds[OF p] by simp
    finally show False
      using lt by simp
  qed
  then show ?thesis
    using True by (simp add: exponent_def)
next
  case False
  then show ?thesis
    using bitlen_nonneg[of "\<lceil>1 / x\<rceil> - 1"] assms(3) by (simp add: exponent_def)
qed

lemma roundToDouble_upper:
  assumes "0 < x"
  shows "roundToDouble x \<le> x + ulp (max (exponent x) (- 1022)) / 2"
    and "0 \<le> roundToDouble x"
proof -
  let ?u = "ulp (max (exponent x) (- 1022))"
  have u: "0 < ?u"
    by (rule ulp_pos)
  have r: "roundToDouble x = of_int (roundHalfEven (x / ?u)) * ?u"
    using assms by (simp add: roundToDouble_def Let_def)
  have "of_int (roundHalfEven (x / ?u)) * ?u \<le> (x / ?u + 1 / 2) * ?u"
    using u roundHalfEven_upper[of "x / ?u"] by (intro mult_right_mono) simp_all
  also have "\<dots> = x + ?u / 2"
    using u by (simp add: field_simps)
  finally show "roundToDouble x \<le> x + ?u / 2"
    by (simp only: r)
  have "0 \<le> roundHalfEven (x / ?u)"
    using assms u by (intro roundHalfEven_nonneg) simp
  then show "0 \<le> roundToDouble x"
    using u by (simp add: r)
qed

text \<open>
  \<^verbatim>\<open>Math.floor(Math.random() * 1000)\<close> is one of 0, ..., 999 for every double that
  \<^verbatim>\<open>Math.random()\<close> can return.
\<close>

lemma random_times_1000:
  assumes "0 \<le> r" and "r \<le> 1 - 1 / 2 ^ 53"
  shows "0 \<le> \<lfloor>roundToDouble (r * 1000)\<rfloor>" and "\<lfloor>roundToDouble (r * 1000)\<rfloor> < 1000"
proof -
  show "0 \<le> \<lfloor>roundToDouble (r * 1000)\<rfloor>"
  proof (cases "r = 0")
    case True
    then show ?thesis
      by (simp add: roundToDouble_def)
  next
    case False
    then show ?thesis
      using assms(1) roundToDouble_upper(2)[of "r * 1000"] by simp
  qed
  show "\<lfloor>roundToDouble (r * 1000)\<rfloor> < 1000"
  proof (cases "r = 0")
    case True
    then show ?thesis
      by (simp add: roundToDouble_def)
  next
    case False
    then have p: "0 < r * 1000"
      using assms(1) by simp
    have lt: "r * 1000 < 2 ^ 10"
      using assms(2) by simp
    have "exponent (r * 1000) \<le> 9"
      using exponent_le[OF p lt] by simp
    then have "ulp (max (exponent (r * 1000)) (- 1022)) \<le> ulp 9"
      by (intro ulp_mono) simp
    also have "ulp 9 = 1 / 2 ^ 43"
      by (simp add: ulp_def)
    finally have "roundToDouble (r * 1000) \<le> r * 1000 + (1 / 2 ^ 43) / 2"
      using roundToDouble_upper(1)[OF p] by simp
    also have "\<dots> < 1000"
      using assms(2) by simp
    finally show ?thesis
      by (simp add: floor_less_iff)
  qed
qed

lemma bitlen_500: "bitlen 500 = 9"
  by code_simp

lemma bitlen_997: "bitlen 997 = 10"
  by code_simp

text \<open>
  The draws of the scenarios: 0.5, the decimal 0.5004 and the double nearest to it all
  give 500. At the double nearest to 0.998 the product rounds up to 998.
\<close>

lemma random_draws:
  "\<lfloor>roundToDouble (1 / 2 * 1000)\<rfloor> = 500"
  "\<lfloor>roundToDouble (5004 / 10000 * 1000)\<rfloor> = 500"
  "\<lfloor>roundToDouble (563400313384049 / 1125899906842624 * 1000)\<rfloor> = 500"
  "\<lfloor>roundToDouble (4494592428115755 / 4503599627370496 * 1000)\<rfloor> = 998"
  by (simp_all add: roundToDouble_def roundHalfEven_def exponent_def ulp_def bitlen_500
      bitlen_997 Let_def)

lemma generateOrderId_safe:
  assumes "isSafeInteger (Date_now e * 1000)"
    and "isSafeInteger (Date_now e * 1000 + \<lfloor>roundToDouble (Math_random e * 1000)\<rfloor>)"
  shows "generateOrderId e = Date_now e * 1000 + \<lfloor>roundToDouble (Math_random e * 1000)\<rfloor>"
proof -
  have a: "roundToDouble (of_int (Date_now e) * 1000) = of_int (Date_now e * 1000)"
    using roundToDouble_safe[OF assms(1)] by simp
  have b: "roundToDouble (of_int (Date_now e * 1000) +
             of_int \<lfloor>roundToDouble (Math_random e * 1000)\<rfloor>) =
           of_int (Date_now e * 1000 + \<lfloor>roundToDouble (Math_random e * 1000)\<rfloor>)"
    using roundToDouble_safe[OF assms(2)] by simp
  have "generateOrderId e =
          \<lfloor>roundToDouble (of_int (Date_now e * 1000) +
             of_int \<lfloor>roundToDouble (Math_random e * 1000)\<rfloor>)\<rfloor>"
    by (simp only: generateOrderId_def a)
  also have "\<dots> = \<lfloor>real_of_int (Date_now e * 1000 + \<lfloor>roundToDouble (Math_random e * 1000)\<rfloor>)\<rfloor>"
    by (simp only: b)
  finally show ?thesis
    by (simp only: floor_of_int)
qed

lemma generateOrderId_at:
  assumes "Date_now e = 1700000000000" and "\<lfloor>roundToDouble (Math_random e * 1000)\<rfloor> = 500"
  shows "generateOrderId e = 1700000000000500"
proof -
  have "generateOrderId e = Date_now e * 1000 + \<lfloor>roundToDouble (Math_random e * 1000)\<rfloor>"
    by (rule generateOrderId_safe)
      (simp_all add: assms isSafeInteger_def MAX_SAFE_INTEGER_def)
  then show ?thesis
    by (simp add: assms)
qed

lemma generateOrderId_scenario:
  "Date_now e = 1700000000000 \<Longrightarrow> Math_random e = 1 / 2 \<Longrightarrow>
   generateOrderId e = 1700000000000500"
  "Date_now e = 1700000000000 \<Longrightarrow> Math_random e = 5004 / 10000 \<Longrightarrow>
   generateOrderId e = 1700000000000500"
  "Date_now e = 1700000000000 \<Longrightarrow> Math_random e = 563400313384049 / 1125899906842624 \<Longrightarrow>
   generateOrderId e = 1700000000000500"
proof -
  show "Date_now e = 1700000000000 \<Longrightarrow> Math_random e = 1 / 2 \<Longrightarrow>
      generateOrderId e = 1700000000000500"
    by (rule generateOrderId_at) (simp_all only: random_draws(1))
  show "Date_now e = 1700000000000 \<Longrightarrow> Math_random e = 5004 / 10000 \<Longrightarrow>
      generateOrderId e = 1700000000000500"
    by (rule generateOrderId_at) (simp_all only: random_draws(2))
  show "Date_now e = 1700000000000 \<Longrightarrow>
      Math_random e = 563400313384049 / 1125899906842624 \<Longrightarrow>
      generateOrderId e = 1700000000000500"
    by (rule generateOrderId_at) (simp_all only: random_draws(3))
qed

section \<open>Evaluation\<close>

lemmas scenario_defs =
  scenarioEnv_def emptyWorld_def createOrderEvent_def pixOrder_def cardOrder_def
  updateInstallmentsEvent_def listOrdersEvent_def stack_table_def part_000_table_def
  pixItem_def pixOrderListed_def worldAfterCreate_def updateTo6_def worldAfterUpdate_def
  collidingEnv_def cardItem_def absentKeyUpdate_def faultyEnv_def

lemmas value_defs =
  JSON_parse_body_def JSON_parse_body_or_empty_def getprop_def JSON_stringify_def
  marshall_def unmarshall_def isSafeInteger_def MAX_SAFE_INTEGER_def
  parseInt_def skipWhiteSpace.simps whiteSpaceLength_def digitValue_def digitsValue_def
  toNumber_safe pathParameter_def queryStringParameter_def falsy_def
  failure_def internalServerError_def jsonHeaders_def VALID_PAYMENT_METHODS_def

lemmas store_defs =
  send_def putItem_def updateItem_def query_def hasKey_def hasType_def primaryKey_def
  keyMatchesSchema_def sortKeyNumber_def applySet_def ValidationException_def

lemmas handler_defs =
  createOrder_handler_def createOrder_try_def generateOrderId_scenario
  updateInstallments_handler_def updateInstallments_try_def
  getOrdersByClient_handler_def getOrdersByClient_try_def catch_def Let_def

section \<open>The store call\<close>

lemma send_sent: "sent (snd (send e cmd w)) = sent w @ [cmd]"
  by (simp add: send_def Let_def split: option.splits sum.splits prod.splits)

lemma send_fail_world:
  "fst (send e cmd w) = Inl err \<Longrightarrow> snd (send e cmd w) = w\<lparr>sent := sent w @ [cmd]\<rparr>"
  by (auto simp: send_def Let_def split: option.splits sum.splits prod.splits)

lemma send_fault:
  "storeFault e = Some cause \<Longrightarrow>
   send e cmd w = (Inl (ServiceException ''ServiceFault'' cause), w\<lparr>sent := sent w @ [cmd]\<rparr>)"
  by (simp add: send_def Let_def)

lemma marshall_names: "marshall kvs = Inr it \<Longrightarrow> map fst it = map fst kvs"
  by (auto simp: marshall_def split: if_splits)

lemma marshall_NaN: "JNaN \<in> snd ` set kvs \<Longrightarrow> marshall kvs = Inl (Error ''marshall'')"
  by (force simp: marshall_def list_ex_iff)

lemma parseInt_number_nonempty:
  assumes "parseInt s = JNum n"
  shows "s \<noteq> []"
proof
  assume "s = []"
  moreover have "parseInt [] = JNaN"
    by (simp add: parseInt_def skipWhiteSpace.simps whiteSpaceLength_def)
  ultimately show False
    using assms by simp
qed

text \<open>
  White space before the digits is skipped whatever its code point: a no-break space
  (U+00A0), a line separator (U+2028) and a space before \<^verbatim>\<open>12abc\<close> leave 12.
\<close>

lemma parseInt_skips_unicode_white_space:
  "parseInt [CHR 0xC2, CHR 0xA0, CHR ''1''] = JNum 1"
  "parseInt ([CHR 0xC2, CHR 0xA0, CHR 0xE2, CHR 0x80, CHR 0xA8] @ '' 12abc'') = JNum 12"
  "parseInt [CHR 0xC2, CHR 0xA0] = JNaN"
  by (simp_all add: parseInt_def skipWhiteSpace.simps whiteSpaceLength_def digitValue_def
      digitsValue_def toNumber_safe isSafeInteger_def MAX_SAFE_INTEGER_def)

text \<open>Beyond the safe integers the digits are rounded to a double, ties to even.\<close>

lemma parseInt_rounds:
  "parseInt ''9007199254740993'' = JNum 9007199254740992"
  "parseInt ''9007199254740995'' = JNum 9007199254740996"
proof -
  have b: "bitlen 9007199254740993 = 54" "bitlen 9007199254740995 = 54"
    by code_simp+
  show "parseInt ''9007199254740993'' = JNum 9007199254740992"
    "parseInt ''9007199254740995'' = JNum 9007199254740996"
    by (simp_all add: parseInt_def skipWhiteSpace.simps whiteSpaceLength_def digitValue_def
        digitsValue_def toNumber_def roundToDouble_def roundHalfEven_def exponent_def ulp_def b
        Let_def)
qed

section \<open>The key of updateInstallments against the declared table\<close>

text \<open>
  On the table of \<^verbatim>\<open>lib/aws-apigateway-lambda-cdk-stack.ts\<close> the key that
  updateInstallments sends (\<^verbatim>\<open>ClientID\<close>, \<^verbatim>\<open>OrderId\<close>) does not match the schema
  (\<^verbatim>\<open>ClientId\<close>, \<^verbatim>\<open>OrderId\<close>): the store rejects every such update.
\<close>

lemma updateItem_stack_table:
  assumes "props t = stack_table" and "map fst k = [''ClientID'', ''OrderId'']"
  shows "updateItem k sets vals t =
           Inl (ValidationException ''The provided key element does not match the schema'')"
proof -
  obtain a b where k: "k = [(''ClientID'', a), (''OrderId'', b)]"
    using assms(2) by (cases k; cases "tl k") auto
  show ?thesis
    by (simp add: updateItem_def keyMatchesSchema_def hasKey_def hasType_def assms(1)
        stack_table_def k)
qed

lemma send_update_stack_table:
  assumes "props (tbl w) = stack_table"
  shows "send e (UpdateItemCommand [(''ClientID'', a), (''OrderId'', b)] sets vals) w =
     (Inl (case storeFault e of
             Some cause \<Rightarrow> ServiceException ''ServiceFault'' cause
           | None \<Rightarrow> ValidationException ''The provided key element does not match the schema''),
      w\<lparr>sent := sent w @ [UpdateItemCommand [(''ClientID'', a), (''OrderId'', b)] sets vals]\<rparr>)"
  by (cases "storeFault e") (simp_all add: send_def Let_def updateItem_stack_table[OF assms])

lemma updateInstallments_never_succeeds_on_stack_table:
  assumes "props (tbl w) = stack_table"
  shows "(fst (updateInstallments_handler e ev w) = failure 400 msgPathRequired \<or>
          fst (updateInstallments_handler e ev w) = internalServerError) \<and>
         tbl (snd (updateInstallments_handler e ev w)) = tbl w"
  by (auto simp: updateInstallments_handler_def updateInstallments_try_def catch_def Let_def
        send_update_stack_table[OF assms]
      split: sum.splits dest!: marshall_names)

lemma create_pixOrder:
  "createOrder_handler scenarioEnv (createOrderEvent pixOrder) (emptyWorld stack_table) =
     (\<lparr>statusCode = 201, headers = jsonHeaders,
       resultBody = JObj [(''success'', JBool True), (''orderId'', JNum 1700000000000500),
                          (''clientId'', JNum 1)]\<rparr>,
      worldAfterCreate)"
  by (simp add: scenario_defs value_defs store_defs handler_defs)

lemma update_pixOrder:
  "updateInstallments_handler scenarioEnv updateTo6 worldAfterCreate =
     (\<lparr>statusCode = 500, headers = jsonHeaders,
       resultBody = JObj [(''success'', JBool False),
                          (''error'', JStr ''Erro interno do servidor'')]\<rparr>,
      worldAfterUpdate)"
  by (simp add: scenario_defs value_defs store_defs handler_defs)

lemma list_pixOrder:
  "getOrdersByClient_handler scenarioEnv (listOrdersEvent ''1'' None) worldAfterUpdate =
     (\<lparr>statusCode = 200, headers = jsonHeaders,
       resultBody = JObj [(''success'', JBool True), (''clientId'', JNum 1), (''count'', JNum 1),
                          (''orders'', JArr [pixOrderListed])]\<rparr>,
      worldAfterUpdate\<lparr>sent := sent worldAfterUpdate @
         [QueryCommand (Equals ''ClientId'' '':clientId'') None [('':clientId'', AttrN 1)]]\<rparr>)"
  by (simp add: scenario_defs value_defs store_defs handler_defs)

text \<open>
  C1. The scenario "create an order for client 1, then UpdateInstallments on that order
  with \<^verbatim>\<open>{installments:6}\<close>, then list": on the declared table the order is created
  with id 1700000000000500; the update is answered with the 500 response and leaves the
  table as it was (only the log of sent commands grows); the list that follows still
  shows \<^verbatim>\<open>Installments: 3\<close> for the order. The claim expects the 200 response and
  \<^verbatim>\<open>installments: 6\<close>.
\<close>

theorem C1_update_after_create_is_rejected:
  "createOrder_handler scenarioEnv (createOrderEvent pixOrder) (emptyWorld stack_table) =
     (\<lparr>statusCode = 201, headers = jsonHeaders,
       resultBody = JObj [(''success'', JBool True), (''orderId'', JNum 1700000000000500),
                          (''clientId'', JNum 1)]\<rparr>,
      worldAfterCreate) \<and>
   updateInstallments_handler scenarioEnv updateTo6 worldAfterCreate =
     (\<lparr>statusCode = 500, headers = jsonHeaders,
       resultBody = JObj [(''success'', JBool False),
                          (''error'', JStr ''Erro interno do servidor'')]\<rparr>,
      worldAfterUpdate) \<and>
   tbl worldAfterUpdate = tbl worldAfterCreate \<and>
   fst (getOrdersByClient_handler scenarioEnv (listOrdersEvent ''1'' None) worldAfterUpdate) =
     \<lparr>statusCode = 200, headers = jsonHeaders,
      resultBody = JObj [(''success'', JBool True), (''clientId'', JNum 1), (''count'', JNum 1),
                         (''orders'', JArr [pixOrderListed])]\<rparr>"
  by (simp add: create_pixOrder update_pixOrder list_pixOrder) (simp add: worldAfterUpdate_def)

section \<open>The attribute names of the three handlers\<close>

lemma createOrder_key_names:
  "sent (snd (createOrder_handler e ev w)) = sent w \<or>
   (\<exists>cmd. sent (snd (createOrder_handler e ev w)) = sent w @ [cmd] \<and>
      keyAttributeNames cmd =
        [''ClientId'', ''OrderId'', ''Items'', ''PaymentMethod'', ''Installments'', ''CreatedAt''])"
  by (auto simp: createOrder_handler_def createOrder_try_def catch_def Let_def case_prod_unfold
        send_sent
      split: sum.split dest!: marshall_names)

lemma updateInstallments_key_names:
  "sent (snd (updateInstallments_handler e ev w)) = sent w \<or>
   (\<exists>cmd. sent (snd (updateInstallments_handler e ev w)) = sent w @ [cmd] \<and>
      keyAttributeNames cmd = [''ClientID'', ''OrderId''])"
  by (auto simp: updateInstallments_handler_def updateInstallments_try_def catch_def Let_def
        case_prod_unfold send_sent
      split: sum.split dest!: marshall_names)

lemma getOrdersByClient_key_names:
  "sent (snd (getOrdersByClient_handler e ev w)) = sent w \<or>
   (\<exists>cmd. sent (snd (getOrdersByClient_handler e ev w)) = sent w @ [cmd] \<and>
      keyAttributeNames cmd = [''ClientId''])"
  by (simp add: getOrdersByClient_handler_def getOrdersByClient_try_def catch_def Let_def
        case_prod_unfold send_sent
      split: sum.split)

text \<open>
  C4. The commands of the scenario (create, update, list), in the order sent: the put and
  the query name \<^verbatim>\<open>ClientId\<close>, the partition key of the table declared in
  \<^verbatim>\<open>lib/aws-apigateway-lambda-cdk-stack.ts\<close>; the update's key names \<^verbatim>\<open>ClientID\<close>,
  the partition key of the declaration in \<^verbatim>\<open>unnamed/part_000\<close>. Under neither
  declaration do the three handlers name the declared partition key.
\<close>

theorem C4_partition_key_names_differ:
  "sent (snd (getOrdersByClient_handler scenarioEnv (listOrdersEvent ''1'' None)
      (snd (updateInstallments_handler scenarioEnv updateTo6
        (snd (createOrder_handler scenarioEnv (createOrderEvent pixOrder)
          (emptyWorld stack_table))))))) =
     [PutItemCommand pixItem,
      UpdateItemCommand [(''ClientID'', AttrN 1), (''OrderId'', AttrN 1700000000000500)]
        [(''Installments'', '':installments''), (''UpdatedAt'', '':updatedAt'')]
        [('':installments'', AttrN 6), ('':updatedAt'', AttrS ''2023-11-14T22:13:20.000Z'')],
      QueryCommand (Equals ''ClientId'' '':clientId'') None [('':clientId'', AttrN 1)]] \<and>
   map (namesPartitionKey stack_table)
     [PutItemCommand pixItem,
      UpdateItemCommand [(''ClientID'', AttrN 1), (''OrderId'', AttrN 1700000000000500)]
        [(''Installments'', '':installments''), (''UpdatedAt'', '':updatedAt'')]
        [('':installments'', AttrN 6), ('':updatedAt'', AttrS ''2023-11-14T22:13:20.000Z'')],
      QueryCommand (Equals ''ClientId'' '':clientId'') None [('':clientId'', AttrN 1)]] =
     [True, False, True] \<and>
   map (namesPartitionKey part_000_table)
     [PutItemCommand pixItem,
      UpdateItemCommand [(''ClientID'', AttrN 1), (''OrderId'', AttrN 1700000000000500)]
        [(''Installments'', '':installments''), (''UpdatedAt'', '':updatedAt'')]
        [('':installments'', AttrN 6), ('':updatedAt'', AttrS ''2023-11-14T22:13:20.000Z'')],
      QueryCommand (Equals ''ClientId'' '':clientId'') None [('':clientId'', AttrN 1)]] =
     [False, True, False]"
proof (intro conjI)
  show "sent (snd (getOrdersByClient_handler scenarioEnv (listOrdersEvent ''1'' None)
      (snd (updateInstallments_handler scenarioEnv updateTo6
        (snd (createOrder_handler scenarioEnv (createOrderEvent pixOrder)
          (emptyWorld stack_table))))))) =
     [PutItemCommand pixItem,
      UpdateItemCommand [(''ClientID'', AttrN 1), (''OrderId'', AttrN 1700000000000500)]
        [(''Installments'', '':installments''), (''UpdatedAt'', '':updatedAt'')]
        [('':installments'', AttrN 6), ('':updatedAt'', AttrS ''2023-11-14T22:13:20.000Z'')],
      QueryCommand (Equals ''ClientId'' '':clientId'') None [('':clientId'', AttrN 1)]]"
    by (simp add: create_pixOrder update_pixOrder list_pixOrder)
      (simp add: worldAfterUpdate_def)
qed (simp_all add: namesPartitionKey_def stack_table_def part_000_table_def pixItem_def)

section \<open>Order ids\<close>

lemma generateOrderId_range:
  assumes "0 \<le> Math_random e" and "Math_random e \<le> 1 - 1 / 2 ^ 53"
    and "0 \<le> Date_now e" and "Date_now e * 1000 + 999 \<le> MAX_SAFE_INTEGER"
  shows "generateOrderId e \<in> {Date_now e * 1000 ..< Date_now e * 1000 + 1000}"
proof -
  have r: "0 \<le> \<lfloor>roundToDouble (Math_random e * 1000)\<rfloor>"
      "\<lfloor>roundToDouble (Math_random e * 1000)\<rfloor> < 1000"
    using random_times_1000[OF assms(1,2)] by simp_all
  have s1: "isSafeInteger (Date_now e * 1000)"
    using assms(3,4) by (simp add: isSafeInteger_def MAX_SAFE_INTEGER_def)
  have s2: "isSafeInteger (Date_now e * 1000 + \<lfloor>roundToDouble (Math_random e * 1000)\<rfloor>)"
    unfolding isSafeInteger_def MAX_SAFE_INTEGER_def
    using r assms(3) assms(4)[unfolded MAX_SAFE_INTEGER_def] by linarith
  have "generateOrderId e = Date_now e * 1000 + \<lfloor>roundToDouble (Math_random e * 1000)\<rfloor>"
    using s1 s2 by (rule generateOrderId_safe)
  then show ?thesis
    using r by simp
qed

text \<open>
  Within one millisecond there are a thousand ids: of more than a thousand orders
  created in the same millisecond, two get the same id, whatever the random draws.
\<close>

lemma generateOrderId_pigeonhole:
  assumes "\<forall>e \<in> set es. Date_now e = t \<and> 0 \<le> Math_random e \<and> Math_random e \<le> 1 - 1 / 2 ^ 53"
    and "0 \<le> t" and "t * 1000 + 999 \<le> MAX_SAFE_INTEGER"
    and "1000 < length es"
  shows "\<not> distinct (map generateOrderId es)"
proof
  assume d: "distinct (map generateOrderId es)"
  have "generateOrderId e \<in> {t * 1000 ..< t * 1000 + 1000}" if "e \<in> set es" for e
    using generateOrderId_range[of e] assms(1-3) that by auto
  then have sub: "set (map generateOrderId es) \<subseteq> {t * 1000 ..< t * 1000 + 1000}"
    by auto
  have "length es = card (set (map generateOrderId es))"
    using distinct_card[OF d] by simp
  also have "\<dots> \<le> card {t * 1000 ..< t * 1000 + 1000}"
    by (rule card_mono[OF _ sub]) simp
  also have "\<dots> = 1000"
    by simp
  finally show False
    using assms(4) by simp
qed

lemma create_cardOrder:
  "createOrder_handler collidingEnv (createOrderEvent cardOrder) worldAfterCreate =
     (\<lparr>statusCode = 201, headers = jsonHeaders,
       resultBody = JObj [(''success'', JBool True), (''orderId'', JNum 1700000000000500),
                          (''clientId'', JNum 1)]\<rparr>,
      \<lparr>tbl = \<lparr>props = stack_table, items = [cardItem]\<rparr>,
       sent = [PutItemCommand pixItem, PutItemCommand cardItem]\<rparr>)"
  by (simp add: scenario_defs value_defs store_defs handler_defs)

text \<open>
  C5. Two CreateOrder calls in the same millisecond (\<^verbatim>\<open>Date.now()\<close> = 1700000000000)
  whose random draws are 0.5 and 0.5004: both are answered 201 with the same
  \<^verbatim>\<open>orderId\<close> 1700000000000500. The ids are present and numeric, not distinct.
\<close>

theorem C5_orderId_collision:
  "Date_now collidingEnv = Date_now scenarioEnv \<and>
   Math_random scenarioEnv = 1 / 2 \<and> Math_random collidingEnv = 5004 / 10000 \<and>
   generateOrderId scenarioEnv = 1700000000000500 \<and>
   generateOrderId collidingEnv = 1700000000000500 \<and>
   fst (createOrder_handler scenarioEnv (createOrderEvent pixOrder) (emptyWorld stack_table)) =
     \<lparr>statusCode = 201, headers = jsonHeaders,
      resultBody = JObj [(''success'', JBool True), (''orderId'', JNum 1700000000000500),
                         (''clientId'', JNum 1)]\<rparr> \<and>
   fst (createOrder_handler collidingEnv (createOrderEvent cardOrder)
          (snd (createOrder_handler scenarioEnv (createOrderEvent pixOrder) (emptyWorld stack_table)))) =
     \<lparr>statusCode = 201, headers = jsonHeaders,
      resultBody = JObj [(''success'', JBool True), (''orderId'', JNum 1700000000000500),
                         (''clientId'', JNum 1)]\<rparr>"
  by (simp add: create_pixOrder create_cardOrder)
    (simp add: generateOrderId_scenario scenarioEnv_def collidingEnv_def)

text \<open>
  C8. The same two calls: the second put carries the primary key of the first order and
  replaces it. The order (1, 1700000000000500), created with one item of product 10 paid
  by pix, now has one item of product 77 paid by credit card: \<^verbatim>\<open>Items\<close> and
  \<^verbatim>\<open>PaymentMethod\<close> of an existing order have changed.
\<close>

theorem C8_create_replaces_an_existing_order:
  "items (tbl (snd (createOrder_handler scenarioEnv (createOrderEvent pixOrder)
      (emptyWorld stack_table)))) = [pixItem] \<and>
   items (tbl (snd (createOrder_handler collidingEnv (createOrderEvent cardOrder)
      (snd (createOrder_handler scenarioEnv (createOrderEvent pixOrder)
        (emptyWorld stack_table)))))) = [cardItem] \<and>
   primaryKey stack_table cardItem = primaryKey stack_table pixItem \<and>
   map_of pixItem ''Items'' =
     Some (AttrL [AttrM [(''productId'', AttrN 10), (''quantity'', AttrN 2)]]) \<and>
   map_of cardItem ''Items'' =
     Some (AttrL [AttrM [(''productId'', AttrN 77), (''quantity'', AttrN 1)]]) \<and>
   map_of pixItem ''PaymentMethod'' = Some (AttrS ''pix'') \<and>
   map_of cardItem ''PaymentMethod'' = Some (AttrS ''credit_card'')"
  by (simp add: create_pixOrder create_cardOrder)
    (simp add: worldAfterCreate_def pixItem_def cardItem_def primaryKey_def stack_table_def)

section \<open>Path identifiers that are not numbers\<close>

lemma updateInstallments_NaN:
  assumes "pathParameter ev ''clientId'' = Some c" and "pathParameter ev ''orderId'' = Some oid"
    and "c \<noteq> []" and "oid \<noteq> []" and "parseInt c = JNaN \<or> parseInt oid = JNaN"
  shows "updateInstallments_handler e ev w = (internalServerError, w)"
proof -
  have "marshall [(''ClientID'', parseInt c), (''OrderId'', parseInt oid)] = Inl (Error ''marshall'')"
    using assms(5) by (auto intro!: marshall_NaN)
  then show ?thesis
    using assms(1-4)
    by (simp add: updateInstallments_handler_def updateInstallments_try_def catch_def Let_def
        falsy_def split: sum.splits)
qed

text \<open>
  C6. UpdateInstallments with the path \<^verbatim>\<open>clientId = "abc"\<close>, \<^verbatim>\<open>orderId = "5"\<close>: both
  identifiers are present, \<^verbatim>\<open>parseInt("abc")\<close> is \<^verbatim>\<open>NaN\<close>, \<^verbatim>\<open>marshall\<close> throws on it,
  and the answer is the 500 response (no command is sent). The list handler answers
  the same path value with its 400 response.
\<close>

theorem C6_non_numeric_path_is_answered_500:
  "updateInstallments_handler scenarioEnv
      (updateInstallmentsEvent ''abc'' ''5'' (JObj [(''installments'', JNum 6)]))
      (emptyWorld stack_table) =
     (\<lparr>statusCode = 500, headers = jsonHeaders,
       resultBody = JObj [(''success'', JBool False),
                          (''error'', JStr ''Erro interno do servidor'')]\<rparr>,
      emptyWorld stack_table) \<and>
   getOrdersByClient_handler scenarioEnv (listOrdersEvent ''abc'' None) (emptyWorld stack_table) =
     (\<lparr>statusCode = 400, headers = jsonHeaders,
       resultBody = JObj [(''success'', JBool False), (''error'', JStr msgClientIdNumber)]\<rparr>,
      emptyWorld stack_table)"
  by (simp add: scenario_defs value_defs store_defs handler_defs)

section \<open>An update of a key the table does not hold\<close>

lemma getprop_installments: "getprop (JObj [(''installments'', v)]) ''installments'' = Inr v"
  by (simp add: getprop_def)

text \<open>
  C2 as the claim states it fails: on the table declared in \<^verbatim>\<open>unnamed/part_000\<close>
  (partition key \<^verbatim>\<open>ClientID\<close>, the name the handler sends), an UpdateInstallments for
  client 1, order 5 on the empty table is answered 200, and the table then holds a
  record with the key, \<^verbatim>\<open>Installments\<close> and \<^verbatim>\<open>UpdatedAt\<close> and nothing else.
\<close>

theorem C2_absent_key_update_succeeds:
  "items (tbl (emptyWorld part_000_table)) = [] \<and>
   fst (updateInstallments_handler scenarioEnv absentKeyUpdate (emptyWorld part_000_table)) =
     \<lparr>statusCode = 200, headers = jsonHeaders,
      resultBody = JObj [(''success'', JBool True), (''clientId'', JNum 1), (''orderId'', JNum 5),
                         (''installments'', JNum 6)]\<rparr> \<and>
   items (tbl (snd (updateInstallments_handler scenarioEnv absentKeyUpdate
                      (emptyWorld part_000_table)))) =
     [[(''ClientID'', AttrN 1), (''OrderId'', AttrN 5), (''Installments'', AttrN 6),
       (''UpdatedAt'', AttrS ''2023-11-14T22:13:20.000Z'')]]"
  by (simp add: scenario_defs value_defs store_defs handler_defs)

text \<open>
  C2, amended. UpdateInstallments sends an unconditional \<^verbatim>\<open>UpdateItem\<close>: on a table
  whose key schema is the key the handler sends (\<^verbatim>\<open>ClientID\<close>, \<^verbatim>\<open>OrderId\<close>, both
  numbers), with the store in service, a request whose two path identifiers
  \<^verbatim>\<open>parseInt\<close> reads as safe integers, with the body \<^verbatim>\<open>{installments: n}\<close> (\<open>n\<close> a
  safe integer), whose key the table does not hold, is answered 200 with
  \<^verbatim>\<open>{success:true, clientId, orderId, installments}\<close>, and the table gains one record
  holding the key, \<^verbatim>\<open>Installments\<close> and \<^verbatim>\<open>UpdatedAt\<close> only.
\<close>

theorem C2_update_of_absent_key_creates_partial_record:
  assumes schema: "keyName (partitionKey (props (tbl w))) = ''ClientID''"
      "keyType (partitionKey (props (tbl w))) = NUMBER"
      "keyName (sortKey (props (tbl w))) = ''OrderId''"
      "keyType (sortKey (props (tbl w))) = NUMBER"
    and nofault: "storeFault e = None"
    and cid: "pathParameter ev ''clientId'' = Some c" "parseInt c = JNum cn" "isSafeInteger cn"
    and oid: "pathParameter ev ''orderId'' = Some oi" "parseInt oi = JNum on" "isSafeInteger on"
    and payload: "body ev = Json (JObj [(''installments'', JNum n)])" "isSafeInteger n"
    and absent: "find (\<lambda>old. primaryKey (props (tbl w)) old = (Some (AttrN cn), Some (AttrN on)))
                   (items (tbl w)) = None"
  shows "updateInstallments_handler e ev w =
     (\<lparr>statusCode = 200, headers = jsonHeaders,
       resultBody = JObj [(''success'', JBool True), (''clientId'', JNum cn), (''orderId'', JNum on),
                          (''installments'', JNum n)]\<rparr>,
      \<lparr>tbl = (tbl w)\<lparr>items :=
               [(''ClientID'', AttrN cn), (''OrderId'', AttrN on), (''Installments'', AttrN n),
                (''UpdatedAt'', AttrS (toISOString e))] # items (tbl w)\<rparr>,
       sent = sent w @
         [UpdateItemCommand [(''ClientID'', AttrN cn), (''OrderId'', AttrN on)]
            [(''Installments'', '':installments''), (''UpdatedAt'', '':updatedAt'')]
            [('':installments'', AttrN n), ('':updatedAt'', AttrS (toISOString e))]]\<rparr>)"
proof -
  have c: "c \<noteq> []"
    using cid(2) by (rule parseInt_number_nonempty)
  have o: "oi \<noteq> []"
    using oid(2) by (rule parseInt_number_nonempty)
  have k: "marshall [(''ClientID'', JNum cn), (''OrderId'', JNum on)] =
             Inr [(''ClientID'', AttrN cn), (''OrderId'', AttrN on)]"
    using cid(3) oid(3) by (simp add: marshall_def)
  have v: "marshall [('':installments'', JNum n), ('':updatedAt'', JStr (toISOString e))] =
             Inr [('':installments'', AttrN n), ('':updatedAt'', AttrS (toISOString e))]"
    using payload(2) by (simp add: marshall_def)
  have u: "updateItem [(''ClientID'', AttrN cn), (''OrderId'', AttrN on)]
             [(''Installments'', '':installments''), (''UpdatedAt'', '':updatedAt'')]
             [('':installments'', AttrN n), ('':updatedAt'', AttrS (toISOString e))] (tbl w) =
           Inr (UpdateItemOutput
                  [(''ClientID'', AttrN cn), (''OrderId'', AttrN on), (''Installments'', AttrN n),
                   (''UpdatedAt'', AttrS (toISOString e))],
                (tbl w)\<lparr>items :=
                  [(''ClientID'', AttrN cn), (''OrderId'', AttrN on), (''Installments'', AttrN n),
                   (''UpdatedAt'', AttrS (toISOString e))] # items (tbl w)\<rparr>)"
    using absent
    by (simp add: updateItem_def keyMatchesSchema_def hasKey_def hasType_def schema
        primaryKey_def applySet_def)
  show ?thesis
    by (simp add: updateInstallments_handler_def updateInstallments_try_def catch_def Let_def
        falsy_def cid oid c o payload(1) JSON_parse_body_or_empty_def getprop_installments k v
        send_def nofault u JSON_stringify_def)
qed

theorem C2_update_of_absent_key_witness:
  "updateInstallments_handler scenarioEnv absentKeyUpdate (emptyWorld part_000_table) =
     (\<lparr>statusCode = 200, headers = jsonHeaders,
       resultBody = JObj [(''success'', JBool True), (''clientId'', JNum 1), (''orderId'', JNum 5),
                          (''installments'', JNum 6)]\<rparr>,
      \<lparr>tbl = \<lparr>props = part_000_table,
              items = [[(''ClientID'', AttrN 1), (''OrderId'', AttrN 5), (''Installments'', AttrN 6),
                        (''UpdatedAt'', AttrS ''2023-11-14T22:13:20.000Z'')]]\<rparr>,
       sent =
         [UpdateItemCommand [(''ClientID'', AttrN 1), (''OrderId'', AttrN 5)]
            [(''Installments'', '':installments''), (''UpdatedAt'', '':updatedAt'')]
            [('':installments'', AttrN 6), ('':updatedAt'', AttrS ''2023-11-14T22:13:20.000Z'')]]\<rparr>)"
  using C2_update_of_absent_key_creates_partial_record
    [of "emptyWorld part_000_table" scenarioEnv absentKeyUpdate "''1''" 1 "''5''" 5 6]
  by (simp add: scenario_defs value_defs primaryKey_def)

section \<open>Create, then list\<close>

lemma filter_filter_empty: "filter P xs = [] \<Longrightarrow> filter P (filter Q xs) = []"
  by (induction xs) (auto split: if_splits)

lemma pixOrder_props:
  "getprop pixOrder ''clientId'' = Inr (JNum 1)"
  "getprop pixOrder ''items'' = Inr (JArr [JObj [(''productId'', JNum 10), (''quantity'', JNum 2)]])"
  "getprop pixOrder ''paymentMethod'' = Inr (JStr ''pix'')"
  "getprop pixOrder ''installments'' = Inr (JNum 3)"
  by (simp_all add: pixOrder_def getprop_def)

lemma create_pixOrder_any_clock:
  assumes "props (tbl w) = stack_table" and "storeFault e = None"
    and "isSafeInteger (generateOrderId e)"
  shows "createOrder_handler e (createOrderEvent pixOrder) w =
     (\<lparr>statusCode = 201, headers = jsonHeaders,
       resultBody = JObj [(''success'', JBool True), (''orderId'', JNum (generateOrderId e)),
                          (''clientId'', JNum 1)]\<rparr>,
      \<lparr>tbl = (tbl w)\<lparr>items := storedPixOrder e #
               filter (\<lambda>old. primaryKey stack_table old \<noteq> primaryKey stack_table (storedPixOrder e))
                 (items (tbl w))\<rparr>,
       sent = sent w @ [PutItemCommand (storedPixOrder e)]\<rparr>)"
proof -
  have m: "marshall
             [(''ClientId'', JNum 1),
              (''OrderId'', JNum (generateOrderId e)),
              (''Items'', JArr [JObj [(''productId'', JNum 10), (''quantity'', JNum 2)]]),
              (''PaymentMethod'', JStr ''pix''),
              (''Installments'', JNum 3),
              (''CreatedAt'', JStr (toISOString e))] = Inr (storedPixOrder e)"
    using assms(3)
    by (simp add: marshall_def storedPixOrder_def isSafeInteger_def MAX_SAFE_INTEGER_def)
  have p: "putItem (storedPixOrder e) (tbl w) =
             Inr (PutItemOutput,
                  (tbl w)\<lparr>items := storedPixOrder e #
                    filter (\<lambda>old. primaryKey stack_table old \<noteq> primaryKey stack_table (storedPixOrder e))
                      (items (tbl w))\<rparr>)"
    by (simp add: putItem_def assms(1) hasKey_def hasType_def stack_table_def storedPixOrder_def)
  show ?thesis
    by (simp add: createOrder_handler_def createOrder_try_def catch_def Let_def
        createOrderEvent_def JSON_parse_body_def pixOrder_props m send_def assms(2) p
        JSON_stringify_def)
qed

lemma list_after_create_pixOrder:
  assumes "props (tbl w) = stack_table" and "storeFault e' = None"
    and "isSafeInteger (generateOrderId e)"
    and "filter (\<lambda>i. map_of i ''ClientId'' = Some (AttrN 1)) (items (tbl w)) = []"
  shows "fst (getOrdersByClient_handler e' (listOrdersEvent ''1'' None)
      \<lparr>tbl = (tbl w)\<lparr>items := storedPixOrder e #
               filter (\<lambda>old. primaryKey stack_table old \<noteq> primaryKey stack_table (storedPixOrder e))
                 (items (tbl w))\<rparr>,
       sent = s\<rparr>) =
     \<lparr>statusCode = 200, headers = jsonHeaders,
      resultBody = JObj [(''success'', JBool True), (''clientId'', JNum 1), (''count'', JNum 1),
        (''orders'', JArr [JObj [(''ClientId'', JNum 1), (''OrderId'', JNum (generateOrderId e)),
           (''Items'', JArr [JObj [(''productId'', JNum 10), (''quantity'', JNum 2)]]),
           (''PaymentMethod'', JStr ''pix''), (''Installments'', JNum 3),
           (''CreatedAt'', JStr (toISOString e))]])]\<rparr>"
proof -
  have q: "query (Equals ''ClientId'' '':clientId'') None [('':clientId'', AttrN 1)]
       ((tbl w)\<lparr>items := storedPixOrder e #
               filter (\<lambda>old. primaryKey stack_table old \<noteq> primaryKey stack_table (storedPixOrder e))
                 (items (tbl w))\<rparr>)
     = Inr (QueryOutput [storedPixOrder e],
            (tbl w)\<lparr>items := storedPixOrder e #
               filter (\<lambda>old. primaryKey stack_table old \<noteq> primaryKey stack_table (storedPixOrder e))
                 (items (tbl w))\<rparr>)"
    using filter_filter_empty[OF assms(4)]
    by (simp add: query_def assms(1) stack_table_def hasType_def storedPixOrder_def)
  have one: "parseInt ''1'' = JNum 1"
    by (simp add: parseInt_def skipWhiteSpace.simps whiteSpaceLength_def digitValue_def
        digitsValue_def toNumber_safe isSafeInteger_def MAX_SAFE_INTEGER_def)
  have m: "marshall [('':clientId'', JNum 1)] = Inr [('':clientId'', AttrN 1)]"
    by (simp add: marshall_def isSafeInteger_def MAX_SAFE_INTEGER_def)
  have u: "unmarshall (storedPixOrder e) =
      JObj [(''ClientId'', JNum 1), (''OrderId'', JNum (generateOrderId e)),
           (''Items'', JArr [JObj [(''productId'', JNum 10), (''quantity'', JNum 2)]]),
           (''PaymentMethod'', JStr ''pix''), (''Installments'', JNum 3),
           (''CreatedAt'', JStr (toISOString e))]"
    using assms(3)
    by (simp add: unmarshall_def storedPixOrder_def isSafeInteger_def MAX_SAFE_INTEGER_def)
  show ?thesis
    by (simp add: getOrdersByClient_handler_def getOrdersByClient_try_def catch_def Let_def
        listOrdersEvent_def pathParameter_def queryStringParameter_def falsy_def one m send_def
        assms(2) q u JSON_stringify_def)
qed

text \<open>
  C3. On the declared table, with the store in service and a clock whose order id is a
  safe integer, for any table that holds no order of client 1: CreateOrder with
  \<^verbatim>\<open>{clientId:1, items:[{productId:10, quantity:2}], paymentMethod:"pix", installments:3}\<close>
  is answered 201 with \<^verbatim>\<open>{success:true, orderId, clientId:1}\<close>, and the
  ListOrdersByClient for client 1 that follows is answered 200 with exactly one order,
  whose attributes are the payload's fields, the generated id and the creation time.
\<close>

theorem C3_create_then_list_round_trip:
  assumes "props (tbl w) = stack_table" and "storeFault e = None" and "storeFault e' = None"
    and "isSafeInteger (generateOrderId e)"
    and "filter (\<lambda>i. map_of i ''ClientId'' = Some (AttrN 1)) (items (tbl w)) = []"
  shows "fst (createOrder_handler e (createOrderEvent pixOrder) w) =
     \<lparr>statusCode = 201, headers = jsonHeaders,
      resultBody = JObj [(''success'', JBool True), (''orderId'', JNum (generateOrderId e)),
                         (''clientId'', JNum 1)]\<rparr> \<and>
   fst (getOrdersByClient_handler e' (listOrdersEvent ''1'' None)
          (snd (createOrder_handler e (createOrderEvent pixOrder) w))) =
     \<lparr>statusCode = 200, headers = jsonHeaders,
      resultBody = JObj [(''success'', JBool True), (''clientId'', JNum 1), (''count'', JNum 1),
        (''orders'', JArr [JObj [(''ClientId'', JNum 1), (''OrderId'', JNum (generateOrderId e)),
           (''Items'', JArr [JObj [(''productId'', JNum 10), (''quantity'', JNum 2)]]),
           (''PaymentMethod'', JStr ''pix''), (''Installments'', JNum 3),
           (''CreatedAt'', JStr (toISOString e))]])]\<rparr>"
  using list_after_create_pixOrder[OF assms(1,3,4,5)]
  by (simp add: create_pixOrder_any_clock[OF assms(1,2,4)])

theorem C3_create_then_list_witness:
  "fst (createOrder_handler scenarioEnv (createOrderEvent pixOrder) (emptyWorld stack_table)) =
     \<lparr>statusCode = 201, headers = jsonHeaders,
      resultBody = JObj [(''success'', JBool True), (''orderId'', JNum 1700000000000500),
                         (''clientId'', JNum 1)]\<rparr> \<and>
   fst (getOrdersByClient_handler scenarioEnv (listOrdersEvent ''1'' None)
          (snd (createOrder_handler scenarioEnv (createOrderEvent pixOrder) (emptyWorld stack_table)))) =
     \<lparr>statusCode = 200, headers = jsonHeaders,
      resultBody = JObj [(''success'', JBool True), (''clientId'', JNum 1), (''count'', JNum 1),
                         (''orders'', JArr [pixOrderListed])]\<rparr>"
proof -
  have id: "generateOrderId scenarioEnv = 1700000000000500"
    by (simp add: generateOrderId_scenario scenarioEnv_def)
  have safe: "isSafeInteger (generateOrderId scenarioEnv)"
    by (simp add: id isSafeInteger_def MAX_SAFE_INTEGER_def)
  have h: "props (tbl (emptyWorld stack_table)) = stack_table"
     "storeFault scenarioEnv = None"
     "filter (\<lambda>i. map_of i ''ClientId'' = Some (AttrN 1)) (items (tbl (emptyWorld stack_table))) = []"
    by (simp_all add: emptyWorld_def scenarioEnv_def)
  show ?thesis
    using C3_create_then_list_round_trip[OF h(1) h(2) h(2) safe h(3)]
    by (simp add: id pixOrderListed_def) (simp add: scenarioEnv_def)
qed

section \<open>Validation comes before the store\<close>

lemma updateInstallments_missing_path:
  "falsy (pathParameter ev ''clientId'') \<or> falsy (pathParameter ev ''orderId'') \<Longrightarrow>
   updateInstallments_handler e ev w = (failure 400 msgPathRequired, w)"
  by (simp add: updateInstallments_handler_def updateInstallments_try_def catch_def Let_def)

lemma getOrdersByClient_missing_clientId:
  "falsy (pathParameter ev ''clientId'') \<Longrightarrow>
   getOrdersByClient_handler e ev w = (failure 400 msgClientIdRequired, w)"
  by (simp add: getOrdersByClient_handler_def getOrdersByClient_try_def catch_def Let_def)

lemma getOrdersByClient_clientId_NaN:
  "pathParameter ev ''clientId'' = Some c \<Longrightarrow> c \<noteq> [] \<Longrightarrow> parseInt c = JNaN \<Longrightarrow>
   getOrdersByClient_handler e ev w = (failure 400 msgClientIdNumber, w)"
  by (simp add: getOrdersByClient_handler_def getOrdersByClient_try_def catch_def Let_def
      falsy_def)

lemma getOrdersByClient_invalid_paymentMethod:
  "pathParameter ev ''clientId'' = Some c \<Longrightarrow> c \<noteq> [] \<Longrightarrow> parseInt c \<noteq> JNaN \<Longrightarrow>
   queryStringParameter ev ''paymentMethod'' = Some p \<Longrightarrow> p \<noteq> [] \<Longrightarrow>
   p \<notin> set VALID_PAYMENT_METHODS \<Longrightarrow>
   getOrdersByClient_handler e ev w = (failure 400 msgInvalidPaymentMethod, w)"
  by (simp add: getOrdersByClient_handler_def getOrdersByClient_try_def catch_def Let_def
      falsy_def)

text \<open>
  A \<^verbatim>\<open>clientId\<close> that starts with a no-break space is not a validation failure:
  \<^verbatim>\<open>parseInt\<close> skips the space, the query is sent and the answer is 200.
\<close>

lemma getOrdersByClient_no_break_space:
  "getOrdersByClient_handler scenarioEnv
      (listOrdersEvent [CHR 0xC2, CHR 0xA0, CHR ''1''] None) (emptyWorld stack_table) =
     (\<lparr>statusCode = 200, headers = jsonHeaders,
       resultBody = JObj [(''success'', JBool True), (''clientId'', JNum 1),
                          (''count'', JNum 0), (''orders'', JArr [])]\<rparr>,
      (emptyWorld stack_table)\<lparr>sent :=
        [QueryCommand (Equals ''ClientId'' '':clientId'') None [('':clientId'', AttrN 1)]]\<rparr>)"
  by (simp add: scenario_defs value_defs store_defs handler_defs)

text \<open>
  C7. A request that fails a handler's validation is answered with that handler's 400
  response and the world is returned as it was: the table is the same and no command
  has been sent. The validation failures are: in UpdateInstallments, a \<^verbatim>\<open>clientId\<close>
  or \<^verbatim>\<open>orderId\<close> path parameter that is missing (\<^verbatim>\<open>undefined\<close> or empty); in
  ListOrdersByClient, a missing \<^verbatim>\<open>clientId\<close>, a \<^verbatim>\<open>clientId\<close> that \<^verbatim>\<open>parseInt\<close> reads
  as \<^verbatim>\<open>NaN\<close>, and a \<^verbatim>\<open>paymentMethod\<close> that is supplied (a non-empty string) and is
  none of the three literals.
\<close>

theorem C7_validation_failures_send_nothing:
  "(falsy (pathParameter ev ''clientId'') \<or> falsy (pathParameter ev ''orderId'')
      \<longrightarrow> updateInstallments_handler e ev w = (failure 400 msgPathRequired, w)) \<and>
   (falsy (pathParameter ev ''clientId'')
      \<longrightarrow> getOrdersByClient_handler e ev w = (failure 400 msgClientIdRequired, w)) \<and>
   (pathParameter ev ''clientId'' = Some c \<and> c \<noteq> [] \<and> parseInt c = JNaN
      \<longrightarrow> getOrdersByClient_handler e ev w = (failure 400 msgClientIdNumber, w)) \<and>
   (pathParameter ev ''clientId'' = Some c \<and> c \<noteq> [] \<and> parseInt c \<noteq> JNaN \<and>
    queryStringParameter ev ''paymentMethod'' = Some p \<and> p \<noteq> [] \<and>
    p \<notin> set VALID_PAYMENT_METHODS
      \<longrightarrow> getOrdersByClient_handler e ev w = (failure 400 msgInvalidPaymentMethod, w))"
proof (intro conjI impI)
  assume "falsy (pathParameter ev ''clientId'') \<or> falsy (pathParameter ev ''orderId'')"
  then show "updateInstallments_handler e ev w = (failure 400 msgPathRequired, w)"
    by (rule updateInstallments_missing_path)
next
  assume "falsy (pathParameter ev ''clientId'')"
  then show "getOrdersByClient_handler e ev w = (failure 400 msgClientIdRequired, w)"
    by (rule getOrdersByClient_missing_clientId)
next
  assume "pathParameter ev ''clientId'' = Some c \<and> c \<noteq> [] \<and> parseInt c = JNaN"
  then show "getOrdersByClient_handler e ev w = (failure 400 msgClientIdNumber, w)"
    using getOrdersByClient_clientId_NaN by blast
next
  assume "pathParameter ev ''clientId'' = Some c \<and> c \<noteq> [] \<and> parseInt c \<noteq> JNaN \<and>
    queryStringParameter ev ''paymentMethod'' = Some p \<and> p \<noteq> [] \<and>
    p \<notin> set VALID_PAYMENT_METHODS"
  then show "getOrdersByClient_handler e ev w = (failure 400 msgInvalidPaymentMethod, w)"
    using getOrdersByClient_invalid_paymentMethod by blast
qed

theorem C7_validation_failures_witness:
  "updateInstallments_handler scenarioEnv (listOrdersEvent ''1'' None) worldAfterCreate =
     (failure 400 msgPathRequired, worldAfterCreate) \<and>
   getOrdersByClient_handler scenarioEnv (createOrderEvent pixOrder) worldAfterCreate =
     (failure 400 msgClientIdRequired, worldAfterCreate) \<and>
   getOrdersByClient_handler scenarioEnv (listOrdersEvent ''abc'' None) worldAfterCreate =
     (failure 400 msgClientIdNumber, worldAfterCreate) \<and>
   getOrdersByClient_handler scenarioEnv (listOrdersEvent ''1'' (Some ''cash'')) worldAfterCreate =
     (failure 400 msgInvalidPaymentMethod, worldAfterCreate)"
  using C7_validation_failures_send_nothing
          [of "listOrdersEvent ''1'' None" scenarioEnv worldAfterCreate "''1''" "''cash''"]
        C7_validation_failures_send_nothing
          [of "createOrderEvent pixOrder" scenarioEnv worldAfterCreate "''1''" "''cash''"]
        C7_validation_failures_send_nothing
          [of "listOrdersEvent ''abc'' None" scenarioEnv worldAfterCreate "''abc''" "''cash''"]
        C7_validation_failures_send_nothing
          [of "listOrdersEvent ''1'' (Some ''cash'')" scenarioEnv worldAfterCreate "''1''" "''cash''"]
  by (simp add: listOrdersEvent_def createOrderEvent_def pathParameter_def
      queryStringParameter_def falsy_def parseInt_def skipWhiteSpace.simps
      whiteSpaceLength_def digitValue_def digitsValue_def toNumber_safe isSafeInteger_def
      MAX_SAFE_INTEGER_def VALID_PAYMENT_METHODS_def)

section \<open>Listing a client with no matching order\<close>

lemma filter_sort_key_empty:
  "filter (\<lambda>i. P i \<and> Q i) xs = [] \<Longrightarrow> filter Q (sort_key f (filter P xs)) = []"
  by (auto simp: filter_empty_conv)

text \<open>
  C9. On the declared table, with the store in service: ListOrdersByClient for a client
  id \<open>n\<close> (a safe integer), with no \<^verbatim>\<open>paymentMethod\<close> filter or with one of the
  three literals, when the table holds no order of that client matching the filter (no
  order of the client at all when there is no filter), is answered 200 with
  \<^verbatim>\<open>success: true\<close>, the client id, the filter when one was given, \<^verbatim>\<open>count: 0\<close>
  and an empty \<^verbatim>\<open>orders\<close> array; one query has been sent.
\<close>

theorem C9_list_without_matching_orders:
  assumes tbl: "props (tbl w) = stack_table"
    and nofault: "storeFault e = None"
    and cid: "pathParameter ev ''clientId'' = Some c" "parseInt c = JNum n" "isSafeInteger n"
    and pm: "queryStringParameter ev ''paymentMethod'' = pm"
       "case pm of None \<Rightarrow> True | Some p \<Rightarrow> p \<in> set VALID_PAYMENT_METHODS"
    and none: "filter (\<lambda>i. map_of i ''ClientId'' = Some (AttrN n) \<and>
                    (case pm of None \<Rightarrow> True
                     | Some p \<Rightarrow> map_of i ''PaymentMethod'' = Some (AttrS p)))
                 (items (tbl w)) = []"
  shows "getOrdersByClient_handler e ev w =
     (\<lparr>statusCode = 200, headers = jsonHeaders,
       resultBody = JObj ([(''success'', JBool True), (''clientId'', JNum n)]
          @ (case pm of None \<Rightarrow> [] | Some p \<Rightarrow> [(''paymentMethod'', JStr p)])
          @ [(''count'', JNum 0), (''orders'', JArr [])])\<rparr>,
      w\<lparr>sent := sent w @
         [QueryCommand (Equals ''ClientId'' '':clientId'')
            (case pm of None \<Rightarrow> None
             | Some p \<Rightarrow> Some (Equals ''PaymentMethod'' '':paymentMethod''))
            (('':clientId'', AttrN n) #
             (case pm of None \<Rightarrow> [] | Some p \<Rightarrow> [('':paymentMethod'', AttrS p)]))]\<rparr>)"
proof -
  have c: "c \<noteq> []"
    using cid(2) by (rule parseInt_number_nonempty)
  show ?thesis
  proof (cases pm)
    case None
    have m: "marshall [('':clientId'', JNum n)] = Inr [('':clientId'', AttrN n)]"
      using cid(3) by (simp add: marshall_def)
    have q: "query (Equals ''ClientId'' '':clientId'') None [('':clientId'', AttrN n)] (tbl w) =
               Inr (QueryOutput [], tbl w)"
      using none None by (simp add: query_def tbl stack_table_def hasType_def)
    show ?thesis
      using None pm(1)
      by (simp add: getOrdersByClient_handler_def getOrdersByClient_try_def catch_def Let_def
          falsy_def cid c m send_def nofault q JSON_stringify_def)
  next
    case (Some p)
    have p: "p \<in> set VALID_PAYMENT_METHODS" "p \<noteq> []"
      using pm(2) Some by (auto simp: VALID_PAYMENT_METHODS_def)
    have m: "marshall [('':clientId'', JNum n), ('':paymentMethod'', JStr p)] =
               Inr [('':clientId'', AttrN n), ('':paymentMethod'', AttrS p)]"
      using cid(3) by (simp add: marshall_def)
    have "filter (\<lambda>i. map_of i ''PaymentMethod'' = Some (AttrS p))
            (sort_key (sortKeyNumber (props (tbl w)))
               (filter (\<lambda>i. map_of i ''ClientId'' = Some (AttrN n)) (items (tbl w)))) = []"
      using none Some by (intro filter_sort_key_empty) simp
    then have q: "query (Equals ''ClientId'' '':clientId'')
          (Some (Equals ''PaymentMethod'' '':paymentMethod''))
          [('':clientId'', AttrN n), ('':paymentMethod'', AttrS p)] (tbl w) =
        Inr (QueryOutput [], tbl w)"
      by (simp add: query_def tbl stack_table_def hasType_def Let_def)
    show ?thesis
      using Some pm(1) p
      by (simp add: getOrdersByClient_handler_def getOrdersByClient_try_def catch_def Let_def
          falsy_def cid c m send_def nofault q JSON_stringify_def)
  qed
qed

theorem C9_list_without_matching_orders_witness:
  "fst (getOrdersByClient_handler scenarioEnv (listOrdersEvent ''1'' None) (emptyWorld stack_table)) =
     \<lparr>statusCode = 200, headers = jsonHeaders,
      resultBody = JObj [(''success'', JBool True), (''clientId'', JNum 1),
                         (''count'', JNum 0), (''orders'', JArr [])]\<rparr> \<and>
   items (tbl worldAfterCreate) = [pixItem] \<and>
   fst (getOrdersByClient_handler scenarioEnv (listOrdersEvent ''1'' (Some ''credit_card''))
          worldAfterCreate) =
     \<lparr>statusCode = 200, headers = jsonHeaders,
      resultBody = JObj [(''success'', JBool True), (''clientId'', JNum 1),
                         (''paymentMethod'', JStr ''credit_card''),
                         (''count'', JNum 0), (''orders'', JArr [])]\<rparr>"
  using C9_list_without_matching_orders
          [of "emptyWorld stack_table" scenarioEnv "listOrdersEvent ''1'' None" "''1''" 1 None]
        C9_list_without_matching_orders
          [of worldAfterCreate scenarioEnv "listOrdersEvent ''1'' (Some ''credit_card'')" "''1''" 1
              "Some ''credit_card''"]
  by (simp add: scenario_defs value_defs)

section \<open>What an update leaves alone\<close>

lemma otherAttributes_update:
  "k = ''Installments'' \<or> k = ''UpdatedAt'' \<Longrightarrow>
   otherAttributes (AList.update k v it) = otherAttributes it"
  by (induction it) (auto simp: otherAttributes_def)

lemma otherAttributes_applySet:
  "otherAttributes (applySet [(''Installments'', a), (''UpdatedAt'', b)] it) = otherAttributes it"
  by (simp add: applySet_def otherAttributes_update)

lemma resolve_two:
  "resolve vals [(''Installments'', x), (''UpdatedAt'', y)] = Some r \<Longrightarrow>
   \<exists>a b. r = [(''Installments'', a), (''UpdatedAt'', b)]"
  by (auto split: option.splits)

lemma updateItem_frame:
  assumes "updateItem k [(''Installments'', x), (''UpdatedAt'', y)] vals t = Inr (out, t')"
  shows "props t' = props t \<and>
         (map otherAttributes (items t') = map otherAttributes (items t) \<or>
          (\<exists>new. items t' = new # items t))"
proof -
  from assms obtain r where r: "resolve vals [(''Installments'', x), (''UpdatedAt'', y)] = Some r"
    by (auto simp: updateItem_def split: if_splits option.splits)
  then obtain a b where ab: "r = [(''Installments'', a), (''UpdatedAt'', b)]"
    using resolve_two by blast
  show ?thesis
    using assms r
    by (auto simp: updateItem_def ab otherAttributes_applySet simp del: resolve.simps
        split: if_splits option.splits)
qed

lemma send_tbl:
  "tbl (snd (send e cmd w)) = tbl w \<or>
   (\<exists>out. dynamodb cmd (tbl w) = Inr (out, tbl (snd (send e cmd w))))"
  by (auto simp: send_def Let_def split: option.splits sum.splits prod.splits)

text \<open>
  Whatever the request, UpdateInstallments leaves the attributes other than
  \<^verbatim>\<open>Installments\<close> and \<^verbatim>\<open>UpdatedAt\<close> of every stored item as they were, or adds one
  item to the table; ListOrdersByClient leaves the table as it was.
\<close>

lemma updateInstallments_frame:
  "props (tbl (snd (updateInstallments_handler e ev w))) = props (tbl w) \<and>
   (map otherAttributes (items (tbl (snd (updateInstallments_handler e ev w)))) =
      map otherAttributes (items (tbl w)) \<or>
    (\<exists>new. items (tbl (snd (updateInstallments_handler e ev w))) = new # items (tbl w)))"
proof -
  have s: "props (tbl (snd (send e
               (UpdateItemCommand k [(''Installments'', x), (''UpdatedAt'', y)] vals) w))) =
             props (tbl w) \<and>
     (map otherAttributes (items (tbl (snd (send e
               (UpdateItemCommand k [(''Installments'', x), (''UpdatedAt'', y)] vals) w)))) =
        map otherAttributes (items (tbl w)) \<or>
      (\<exists>new. items (tbl (snd (send e
               (UpdateItemCommand k [(''Installments'', x), (''UpdatedAt'', y)] vals) w))) =
         new # items (tbl w)))"
    for k x y vals
    using send_tbl[of e "UpdateItemCommand k [(''Installments'', x), (''UpdatedAt'', y)] vals" w]
    by (auto dest: updateItem_frame)
  show ?thesis
    by (simp add: updateInstallments_handler_def updateInstallments_try_def catch_def Let_def
        case_prod_unfold s split: sum.split)
qed

lemma getOrdersByClient_reads_only:
  "tbl (snd (getOrdersByClient_handler e ev w)) = tbl w"
proof -
  have q: "tbl (snd (send e (QueryCommand kc fe vals) w)) = tbl w" for kc fe vals
    by (auto simp: send_def Let_def query_def
        split: option.splits sum.splits prod.splits condition.splits if_splits)
  show ?thesis
    by (simp add: getOrdersByClient_handler_def getOrdersByClient_try_def catch_def Let_def
        case_prod_unfold q split: sum.split)
qed

section \<open>Failures of the store and thrown errors\<close>

lemma createOrder_store_failure:
  "sent (snd (createOrder_handler e ev w)) = sent w @ [cmd] \<and> fst (send e cmd w) = Inl err \<longrightarrow>
   createOrder_handler e ev w = (internalServerError, w\<lparr>sent := sent w @ [cmd]\<rparr>)"
  apply (simp add: createOrder_handler_def createOrder_try_def catch_def Let_def
        case_prod_unfold send_sent send_fail_world
      split: sum.split)
  apply auto
  done

lemma updateInstallments_store_failure:
  "sent (snd (updateInstallments_handler e ev w)) = sent w @ [cmd] \<and>
   fst (send e cmd w) = Inl err \<longrightarrow>
   updateInstallments_handler e ev w = (internalServerError, w\<lparr>sent := sent w @ [cmd]\<rparr>)"
  apply (simp add: updateInstallments_handler_def updateInstallments_try_def catch_def Let_def
        case_prod_unfold send_sent send_fail_world
      split: sum.split)
  apply auto
  done

lemma getOrdersByClient_store_failure:
  "sent (snd (getOrdersByClient_handler e ev w)) = sent w @ [cmd] \<and>
   fst (send e cmd w) = Inl err \<longrightarrow>
   getOrdersByClient_handler e ev w = (internalServerError, w\<lparr>sent := sent w @ [cmd]\<rparr>)"
  apply (simp add: getOrdersByClient_handler_def getOrdersByClient_try_def catch_def Let_def
        case_prod_unfold send_sent send_fail_world
      split: sum.split)
  apply auto
  done

lemma createOrder_at_most_one_call:
  "sent (snd (createOrder_handler e ev w)) = sent w \<or>
   (\<exists>c. sent (snd (createOrder_handler e ev w)) = sent w @ [c])"
  by (simp add: createOrder_handler_def createOrder_try_def catch_def Let_def case_prod_unfold
      send_sent split: sum.split)

lemma updateInstallments_at_most_one_call:
  "sent (snd (updateInstallments_handler e ev w)) = sent w \<or>
   (\<exists>c. sent (snd (updateInstallments_handler e ev w)) = sent w @ [c])"
  by (simp add: updateInstallments_handler_def updateInstallments_try_def catch_def Let_def
      case_prod_unfold send_sent split: sum.split)

lemma getOrdersByClient_at_most_one_call:
  "sent (snd (getOrdersByClient_handler e ev w)) = sent w \<or>
   (\<exists>c. sent (snd (getOrdersByClient_handler e ev w)) = sent w @ [c])"
  by (simp add: getOrdersByClient_handler_def getOrdersByClient_try_def catch_def Let_def
      case_prod_unfold send_sent split: sum.split)

lemma send_fault_update:
  "send (e\<lparr>storeFault := Some cause\<rparr>) cmd w =
     (Inl (ServiceException ''ServiceFault'' cause), w\<lparr>sent := sent w @ [cmd]\<rparr>)"
  by (simp add: send_def Let_def)

lemma createOrder_cause_not_exposed:
  "fst (createOrder_handler (e\<lparr>storeFault := Some c1\<rparr>) ev w) =
   fst (createOrder_handler (e\<lparr>storeFault := Some c2\<rparr>) ev w)"
  by (simp add: createOrder_handler_def createOrder_try_def catch_def Let_def case_prod_unfold
      send_fault_update generateOrderId_def split: sum.split)

lemma updateInstallments_cause_not_exposed:
  "fst (updateInstallments_handler (e\<lparr>storeFault := Some c1\<rparr>) ev w) =
   fst (updateInstallments_handler (e\<lparr>storeFault := Some c2\<rparr>) ev w)"
  by (simp add: updateInstallments_handler_def updateInstallments_try_def catch_def Let_def
      case_prod_unfold send_fault_update split: sum.split)

lemma getOrdersByClient_cause_not_exposed:
  "fst (getOrdersByClient_handler (e\<lparr>storeFault := Some c1\<rparr>) ev w) =
   fst (getOrdersByClient_handler (e\<lparr>storeFault := Some c2\<rparr>) ev w)"
  by (simp add: getOrdersByClient_handler_def getOrdersByClient_try_def catch_def Let_def
      case_prod_unfold send_fault_update split: sum.split)

text \<open>
  C10. For each of the three handlers:
  \<^item> when the command the handler sent was answered by the store with an error (a fault
    of the store's own, or a rejection of the command), the handler's answer is the
    500 response, the table is unchanged and that one command is all that was sent;
  \<^item> when anything is thrown inside the \<^verbatim>\<open>try\<close> block, the answer is the 500 response;
  \<^item> the answer under a store fault does not depend on the fault's cause;
  \<^item> a request sends at most one command: nothing is retried.
  The 500 response is \<^verbatim>\<open>{success:false, error:"Erro interno do servidor"}\<close>.
\<close>

theorem C10_failures_are_answered_with_the_generic_500:
  "(sent (snd (createOrder_handler e ev w)) = sent w @ [cmd] \<and> fst (send e cmd w) = Inl err \<longrightarrow>
      createOrder_handler e ev w = (internalServerError, w\<lparr>sent := sent w @ [cmd]\<rparr>)) \<and>
   (sent (snd (updateInstallments_handler e ev w)) = sent w @ [cmd] \<and>
    fst (send e cmd w) = Inl err \<longrightarrow>
      updateInstallments_handler e ev w = (internalServerError, w\<lparr>sent := sent w @ [cmd]\<rparr>)) \<and>
   (sent (snd (getOrdersByClient_handler e ev w)) = sent w @ [cmd] \<and>
    fst (send e cmd w) = Inl err \<longrightarrow>
      getOrdersByClient_handler e ev w = (internalServerError, w\<lparr>sent := sent w @ [cmd]\<rparr>)) \<and>
   (fst (createOrder_try e ev w) = Inl err \<longrightarrow>
      fst (createOrder_handler e ev w) = internalServerError) \<and>
   (fst (updateInstallments_try e ev w) = Inl err \<longrightarrow>
      fst (updateInstallments_handler e ev w) = internalServerError) \<and>
   (fst (getOrdersByClient_try e ev w) = Inl err \<longrightarrow>
      fst (getOrdersByClient_handler e ev w) = internalServerError) \<and>
   fst (createOrder_handler (e\<lparr>storeFault := Some c1\<rparr>) ev w) =
     fst (createOrder_handler (e\<lparr>storeFault := Some c2\<rparr>) ev w) \<and>
   fst (updateInstallments_handler (e\<lparr>storeFault := Some c1\<rparr>) ev w) =
     fst (updateInstallments_handler (e\<lparr>storeFault := Some c2\<rparr>) ev w) \<and>
   fst (getOrdersByClient_handler (e\<lparr>storeFault := Some c1\<rparr>) ev w) =
     fst (getOrdersByClient_handler (e\<lparr>storeFault := Some c2\<rparr>) ev w) \<and>
   (sent (snd (createOrder_handler e ev w)) = sent w \<or>
      (\<exists>c. sent (snd (createOrder_handler e ev w)) = sent w @ [c])) \<and>
   (sent (snd (updateInstallments_handler e ev w)) = sent w \<or>
      (\<exists>c. sent (snd (updateInstallments_handler e ev w)) = sent w @ [c])) \<and>
   (sent (snd (getOrdersByClient_handler e ev w)) = sent w \<or>
      (\<exists>c. sent (snd (getOrdersByClient_handler e ev w)) = sent w @ [c])) \<and>
   internalServerError =
     \<lparr>statusCode = 500, headers = jsonHeaders,
      resultBody = JObj [(''success'', JBool False),
                         (''error'', JStr ''Erro interno do servidor'')]\<rparr>"
proof (intro conjI)
  show "fst (createOrder_try e ev w) = Inl err \<longrightarrow>
      fst (createOrder_handler e ev w) = internalServerError"
    by (simp add: createOrder_handler_def catch_def)
  show "fst (updateInstallments_try e ev w) = Inl err \<longrightarrow>
      fst (updateInstallments_handler e ev w) = internalServerError"
    by (simp add: updateInstallments_handler_def catch_def)
  show "fst (getOrdersByClient_try e ev w) = Inl err \<longrightarrow>
      fst (getOrdersByClient_handler e ev w) = internalServerError"
    by (simp add: getOrdersByClient_handler_def catch_def)
  show "internalServerError =
     \<lparr>statusCode = 500, headers = jsonHeaders,
      resultBody = JObj [(''success'', JBool False),
                         (''error'', JStr ''Erro interno do servidor'')]\<rparr>"
    by (simp add: internalServerError_def failure_def)
qed (rule createOrder_store_failure updateInstallments_store_failure
      getOrdersByClient_store_failure createOrder_cause_not_exposed
      updateInstallments_cause_not_exposed getOrdersByClient_cause_not_exposed
      createOrder_at_most_one_call updateInstallments_at_most_one_call
      getOrdersByClient_at_most_one_call)+

theorem C10_failures_witness:
  "createOrder_handler faultyEnv (createOrderEvent pixOrder) (emptyWorld stack_table) =
     (internalServerError, (emptyWorld stack_table)\<lparr>sent := [PutItemCommand pixItem]\<rparr>) \<and>
   updateInstallments_handler faultyEnv updateTo6 worldAfterCreate =
     (internalServerError, worldAfterUpdate) \<and>
   getOrdersByClient_handler faultyEnv (listOrdersEvent ''1'' None) worldAfterCreate =
     (internalServerError,
      worldAfterCreate\<lparr>sent := sent worldAfterCreate @
        [QueryCommand (Equals ''ClientId'' '':clientId'') None [('':clientId'', AttrN 1)]]\<rparr>)"
  using C10_failures_are_answered_with_the_generic_500
          [of faultyEnv "createOrderEvent pixOrder" "emptyWorld stack_table"
              "PutItemCommand pixItem"
              "ServiceException ''ServiceFault'' ''ProvisionedThroughputExceededException''"]
        C10_failures_are_answered_with_the_generic_500
          [of faultyEnv updateTo6 worldAfterCreate
              "UpdateItemCommand [(''ClientID'', AttrN 1), (''OrderId'', AttrN 1700000000000500)]
                 [(''Installments'', '':installments''), (''UpdatedAt'', '':updatedAt'')]
                 [('':installments'', AttrN 6),
                  ('':updatedAt'', AttrS ''2023-11-14T22:13:20.000Z'')]"
              "ServiceException ''ServiceFault'' ''ProvisionedThroughputExceededException''"]
        C10_failures_are_answered_with_the_generic_500
          [of faultyEnv "listOrdersEvent ''1'' None" worldAfterCreate
              "QueryCommand (Equals ''ClientId'' '':clientId'') None [('':clientId'', AttrN 1)]"
              "ServiceException ''ServiceFault'' ''ProvisionedThroughputExceededException''"]
  by (simp add: scenario_defs value_defs store_defs handler_defs)

end
